theory Spec2Isabelle
  imports Complex_Main "HOL-Library.AList" "HOL-Library.Sublist" "HOL-Library.Log_Nat"
begin

section \<open>Environment wrappers of ManiSkill2-Learn (maniskill2\_learn/env/wrappers.py)\<close>

text \<open>
  A shallow embedding of the wrapper classes \<^verbatim>\<open>ExtendedEnv\<close> and
  \<^verbatim>\<open>ManiSkill2_ObsWrapper\<close>. A finite floating-point number is the real number it
  stands for. The reward of \<^verbatim>\<open>ExtendedEnv.step\<close> is computed as the program computes
  it, with the rounding of the float64 product and of the cast \<^verbatim>\<open>np.float32\<close>; the
  geometry of the point-cloud branch is exact; the cast of the entries of an array in
  the float coercion is a function \<open>f32\<close>, a parameter of the model on which no
  property depends. Every raise, failed \<^verbatim>\<open>assert\<close> and \<^verbatim>\<open>exit\<close> of the program
  is a value \<open>Inl e\<close>; a returned value is \<open>Inr v\<close>.
\<close>

subsection \<open>Errors\<close>

text \<open>
  \<open>AssertionError\<close> is a failed \<^verbatim>\<open>assert\<close>, \<open>KeyError\<close> a missing dictionary key,
  \<open>SystemExit c\<close> the call \<^verbatim>\<open>exit(c)\<close>, and \<open>OtherError\<close> any other exception of
  Python, numpy or the simulator (TypeError, IndexError, ValueError).
\<close>

datatype error = AssertionError | KeyError | SystemExit int | OtherError

definition bnd :: "error + 'a \<Rightarrow> ('a \<Rightarrow> error + 'b) \<Rightarrow> error + 'b" where
  "bnd m f = (case m of Inl e \<Rightarrow> Inl e | Inr x \<Rightarrow> f x)"

subsection \<open>Arrays\<close>

text \<open>
  A numpy array is the nested list of its entries (what \<^verbatim>\<open>tolist()\<close> gives): a
  zero-dimensional array or numpy scalar is \<open>Sc x\<close>, an array with at least one axis is
  \<open>Ax\<close> of the list of its entries along the first axis.
\<close>

datatype nd = Sc real | Ax "nd list"

primrec nd_map :: "(real \<Rightarrow> real) \<Rightarrow> nd \<Rightarrow> nd" where
  "nd_map f (Sc x) = Sc (f x)"
| "nd_map f (Ax xs) = Ax (map (nd_map f) xs)"

text \<open>\<^verbatim>\<open>a.reshape(-1)\<close> / \<^verbatim>\<open>a.flatten()\<close>: the entries in row-major order.\<close>

primrec nd_flat :: "nd \<Rightarrow> real list" where
  "nd_flat (Sc x) = [x]"
| "nd_flat (Ax xs) = concat (map nd_flat xs)"

text \<open>\<^verbatim>\<open>a.size\<close>: the number of entries.\<close>

definition nd_size :: "nd \<Rightarrow> nat" where
  "nd_size a = length (nd_flat a)"

subsection \<open>Floating-point rounding\<close>

text \<open>
  The result of a floating-point operation is a finite number or an infinity.
  \<open>round_ieee p emin emax x\<close> is \<open>x\<close> rounded to the nearest number of the binary
  format with \<open>p\<close> bits of precision, ties to even, as IEEE 754 has it: \<open>2 powi emin\<close>
  is the least positive number of the format, and a result of magnitude \<open>2 powi (emax + 1)\<close>
  or more overflows to an infinity. \<open>ilog2 x\<close> is the exponent of a positive \<open>x\<close>,
  the integer \<open>k\<close> with \<open>2 powi k \<le> x < 2 powi (k + 1)\<close>.
\<close>

datatype fl = Finite real | PosInf | NegInf

definition fl_neg :: "fl \<Rightarrow> fl" where
  "fl_neg v = (case v of Finite x \<Rightarrow> Finite (- x) | PosInf \<Rightarrow> NegInf | NegInf \<Rightarrow> PosInf)"

definition round_even :: "real \<Rightarrow> int" where
  "round_even q =
     (let f = \<lfloor>q\<rfloor>; d = q - of_int f
      in if d < 1 / 2 then f else if d > 1 / 2 then f + 1 else if even f then f else f + 1)"

definition ilog2 :: "real \<Rightarrow> int" where
  "ilog2 x = (if 1 \<le> x then bitlen \<lfloor>x\<rfloor> - 1 else - bitlen (\<lceil>1 / x\<rceil> - 1))"

definition round_ieee :: "nat \<Rightarrow> int \<Rightarrow> int \<Rightarrow> real \<Rightarrow> fl" where
  "round_ieee p emin emax x =
     (if x = 0 then Finite 0
      else
        let e = max (ilog2 \<bar>x\<bar> - int p + 1) emin;
            y = of_int (round_even (x / 2 powi e)) * 2 powi e
        in if 2 powi (emax + 1) \<le> \<bar>y\<bar> then (if 0 < x then PosInf else NegInf)
           else Finite y)"

text \<open>The product of two float64 numbers, and \<^verbatim>\<open>np.float32(v)\<close> of a float64
  value.\<close>

definition f64_mul :: "real \<Rightarrow> real \<Rightarrow> fl" where
  "f64_mul x y = round_ieee 53 (- 1074) 1023 (x * y)"

definition np_float32 :: "fl \<Rightarrow> fl" where
  "np_float32 v =
     (case v of Finite x \<Rightarrow> round_ieee 24 (- 149) 127 x | PosInf \<Rightarrow> PosInf | NegInf \<Rightarrow> NegInf)"

subsection \<open>Nested data handled by GDict\<close>

text \<open>
  The observations and infos that pass through \<^verbatim>\<open>ExtendedEnv\<close>: numpy arrays and
  numpy scalars with their dtype, Python booleans, integers, strings and \<^verbatim>\<open>None\<close>,
  dictionaries in insertion order and lists. A Python float has no dtype and is left out.
\<close>

datatype dtype = Bool8 | UInt8 | Int32 | Int64 | Float16 | Float32 | Float64

datatype gval =
    NdArray dtype nd
  | PyBool bool
  | PyInt int
  | PyStr string
  | PyNone
  | GDict "(string \<times> gval) list"
  | GList "gval list"

definition is_floating :: "dtype \<Rightarrow> bool" where
  "is_floating d = (d = Float16 \<or> d = Float32 \<or> d = Float64)"

text \<open>
  Modelled from the spec: \<^verbatim>\<open>GDict.f64_to_f32\<close> (maniskill2\_learn/utils/data) is not
  among the sources. The spec has it as the ``float64 to float32 coercion applied
  uniformly to observations/info after every reset/step'', after which ``all
  floating-point observation fields are float32 \<dots> regardless of simulator-reported
  precision''; the docstring of \<^verbatim>\<open>ExtendedEnv\<close> says ``convert all f64 to to\_f32''.
  Every array of a floating-point dtype other than float32, at any depth, is cast to
  float32; everything else, and the structure, stays as it is.
\<close>

primrec f64_to_f32 :: "(real \<Rightarrow> real) \<Rightarrow> gval \<Rightarrow> gval" where
  "f64_to_f32 f32 (NdArray d a) =
     (if is_floating d \<and> d \<noteq> Float32 then NdArray Float32 (nd_map f32 a) else NdArray d a)"
| "f64_to_f32 f32 (PyBool b) = PyBool b"
| "f64_to_f32 f32 (PyInt i) = PyInt i"
| "f64_to_f32 f32 (PyStr s) = PyStr s"
| "f64_to_f32 f32 PyNone = PyNone"
| "f64_to_f32 f32 (GDict kvs) = GDict (map (map_prod id (f64_to_f32 f32)) kvs)"
| "f64_to_f32 f32 (GList vs) = GList (map (f64_to_f32 f32) vs)"

text \<open>The dtypes of all arrays inside a nested value, in order.\<close>

primrec dtypes :: "gval \<Rightarrow> dtype list" where
  "dtypes (NdArray d a) = [d]"
| "dtypes (PyBool b) = []"
| "dtypes (PyInt i) = []"
| "dtypes (PyStr s) = []"
| "dtypes PyNone = []"
| "dtypes (GDict kvs) = concat (map snd (map (map_prod id dtypes) kvs))"
| "dtypes (GList vs) = concat (map dtypes vs)"

text \<open>``Every floating-point field is of dtype float32.''\<close>

definition all_float32 :: "gval \<Rightarrow> bool" where
  "all_float32 v = list_all (\<lambda>d. \<not> is_floating d \<or> d = Float32) (dtypes v)"

definition coerce_float :: "dtype \<Rightarrow> dtype" where
  "coerce_float d = (if is_floating d then Float32 else d)"

subsection \<open>Actions and the wrapped environment\<close>

text \<open>
  An action is a Python integer, a Python float, or a numpy array. The wrapped
  environment is given by what the wrappers read of it: whether its action space is
  \<^verbatim>\<open>Discrete\<close>, its \<^verbatim>\<open>obs_mode\<close>, its \<^verbatim>\<open>__str__()\<close>, and its
  \<^verbatim>\<open>reset\<close> and \<^verbatim>\<open>step\<close> as functions of its own state \<open>'s\<close>. Its reward
  is a finite float64 number.
\<close>

datatype action = PyIntA int | PyFloatA real | NdA nd

record ('s, 'o, 'i) gym_env =
  action_space_Discrete :: bool
  obs_mode :: string
  env_str :: string
  env_reset :: "'s \<Rightarrow> error + ('o \<times> 's)"
  env_step :: "action \<Rightarrow> 's \<Rightarrow> error + (('o \<times> real \<times> bool \<times> 'i) \<times> 's)"

text \<open>\<^verbatim>\<open>int(x)\<close> of Python: truncation towards zero.\<close>

definition py_int :: "real \<Rightarrow> int" where
  "py_int x = (if 0 \<le> x then \<lfloor>x\<rfloor> else \<lceil>x\<rceil>)"

text \<open>
  Modelled from the spec: \<^verbatim>\<open>is_num\<close> (maniskill2\_learn/utils/data) is not among the
  sources. It tells a scalar number from an array: the spec's ``discrete actions of size 1
  are coerced to an integer index; larger arrays fail'' is the array branch of
  \<^verbatim>\<open>_process_action\<close>.
\<close>

fun is_num :: "action \<Rightarrow> bool" where
  "is_num (PyIntA i) = True"
| "is_num (PyFloatA x) = True"
| "is_num (NdA a) = False"

subsection \<open>ExtendedEnv\<close>

record ('s, 'o, 'i) ExtendedEnv =
  env :: "('s, 'o, 'i) gym_env"
  is_discrete :: bool
  is_cost :: int
  reward_scale :: real

text \<open>\<^verbatim>\<open>ExtendedEnv.__init__(self, env, reward_scale, use_cost)\<close>\<close>

definition ExtendedEnv_init ::
  "('s, 'o, 'i) gym_env \<Rightarrow> real \<Rightarrow> bool \<Rightarrow> error + ('s, 'o, 'i) ExtendedEnv" where
  "ExtendedEnv_init e rs use_cost =
     (if \<not> rs > 0 then Inl AssertionError
      else let c = (if use_cost then -1 else 1) in
        Inr \<lparr>env = e, is_discrete = action_space_Discrete e, is_cost = c,
             reward_scale = rs * of_int c\<rparr>)"

text \<open>\<^verbatim>\<open>ExtendedEnv._process_action\<close>\<close>

text \<open>
  \<^verbatim>\<open>int(action)\<close>, \<^verbatim>\<open>action.size\<close> and \<^verbatim>\<open>action.reshape(-1)[0]\<close>: a Python
  number has no \<^verbatim>\<open>size\<close> and no \<^verbatim>\<open>reshape\<close>; \<^verbatim>\<open>int\<close> of an array needs an
  array of one entry.
\<close>

definition int_of_action :: "action \<Rightarrow> error + int" where
  "int_of_action a =
     (case a of
        PyIntA i \<Rightarrow> Inr i
      | PyFloatA x \<Rightarrow> Inr (py_int x)
      | NdA b \<Rightarrow> (case nd_flat b of [x] \<Rightarrow> Inr (py_int x) | _ \<Rightarrow> Inl OtherError))"

definition action_size :: "action \<Rightarrow> error + nat" where
  "action_size a = (case a of NdA b \<Rightarrow> Inr (nd_size b) | _ \<Rightarrow> Inl OtherError)"

definition first_entry :: "action \<Rightarrow> error + real" where
  "first_entry a =
     (case a of
        NdA b \<Rightarrow> (case nd_flat b of [] \<Rightarrow> Inl OtherError | x # _ \<Rightarrow> Inr x)
      | _ \<Rightarrow> Inl OtherError)"

definition process_action :: "('s, 'o, 'i) ExtendedEnv \<Rightarrow> action \<Rightarrow> error + action" where
  "process_action w a =
     (if is_discrete w then
        (if is_num a then bnd (int_of_action a) (\<lambda>i. Inr (PyIntA i))
         else bnd (action_size a) (\<lambda>n.
                if n \<noteq> 1 then Inl AssertionError
                else bnd (first_entry a) (\<lambda>x. Inr (PyIntA (py_int x)))))
      else Inr a)"

text \<open>\<^verbatim>\<open>ExtendedEnv.reset\<close>\<close>

definition ExtendedEnv_reset ::
  "(real \<Rightarrow> real) \<Rightarrow> ('s, gval, 'i) ExtendedEnv \<Rightarrow> 's \<Rightarrow> error + (gval \<times> 's)" where
  "ExtendedEnv_reset f32 w s =
     bnd (env_reset (env w) s) (\<lambda>(obs, s'). Inr (f64_to_f32 f32 obs, s'))"

text \<open>
  \<^verbatim>\<open>ExtendedEnv.step\<close>: \<open>process_action\<close>, then \<open>ExtendedEnv_forward\<close>, the
  call of the wrapped environment and what follows it. \<open>set_truncated\<close> is the statement
  \<^verbatim>\<open>if isinstance(info, dict) and "TimeLimit.truncated" not in info: ...\<close>;
  a Python dictionary is an association list in insertion order, and \<open>AList.update\<close>
  appends a new key at the end as the assignment does. The reward is
  \<^verbatim>\<open>np.float32(reward * self.reward_scale)\<close>.
\<close>

definition set_truncated :: "gval \<Rightarrow> gval" where
  "set_truncated info =
     (case info of
        GDict kvs \<Rightarrow>
          (if ''TimeLimit.truncated'' \<notin> set (map fst kvs)
           then GDict (AList.update ''TimeLimit.truncated'' (PyBool False) kvs)
           else info)
      | _ \<Rightarrow> info)"

definition ExtendedEnv_forward ::
  "(real \<Rightarrow> real) \<Rightarrow> ('s, gval, gval) ExtendedEnv \<Rightarrow> action \<Rightarrow> 's
     \<Rightarrow> error + ((gval \<times> fl \<times> bool \<times> gval) \<times> 's)" where
  "ExtendedEnv_forward f32 w a s =
     bnd (env_step (env w) a s) (\<lambda>((obs, reward, done, info), s').
       (case f64_to_f32 f32 (GList [obs, set_truncated info]) of
          GList [obs', info'] \<Rightarrow>
            Inr ((obs', np_float32 (f64_mul reward (reward_scale w)), done, info'), s')
        | _ \<Rightarrow> Inl OtherError))"

definition ExtendedEnv_step ::
  "(real \<Rightarrow> real) \<Rightarrow> ('s, gval, gval) ExtendedEnv \<Rightarrow> action \<Rightarrow> 's
     \<Rightarrow> error + ((gval \<times> fl \<times> bool \<times> gval) \<times> 's)" where
  "ExtendedEnv_step f32 w a s =
     bnd (process_action w a) (\<lambda>a'. ExtendedEnv_forward f32 w a' s)"

subsection \<open>Observations of ManiSkill2\<close>

text \<open>
  An observation is an array, a scalar number, or a dictionary of observations in
  insertion order. The dtype of an array plays no part in the point-cloud branch and is
  left out here. As the docstring of the branch has it, positions and poses are
  one-dimensional arrays and the fields of a point cloud are arrays with one entry per
  point along the first axis, \<^verbatim>\<open>xyz\<close> and \<^verbatim>\<open>xyzw\<close> being two-dimensional; where a
  numpy operation is applied to a value of another kind the model gives \<open>OtherError\<close>.
\<close>

datatype obs = Arr nd | Num real | Dict "(string \<times> obs) list"

definition vec :: "real list \<Rightarrow> nd" where
  "vec xs = Ax (map Sc xs)"

definition matrix :: "real list list \<Rightarrow> nd" where
  "matrix rows = Ax (map vec rows)"

fun scalars :: "nd list \<Rightarrow> real list option" where
  "scalars [] = Some []"
| "scalars (Sc x # r) = map_option ((#) x) (scalars r)"
| "scalars (Ax xs # r) = None"

fun row_scalars :: "nd \<Rightarrow> real list option" where
  "row_scalars (Sc x) = None"
| "row_scalars (Ax cs) = scalars cs"

definition as_vec :: "obs \<Rightarrow> error + real list" where
  "as_vec v =
     (case v of
        Arr (Ax xs) \<Rightarrow> (case scalars xs of Some r \<Rightarrow> Inr r | None \<Rightarrow> Inl OtherError)
      | _ \<Rightarrow> Inl OtherError)"

definition as_matrix :: "obs \<Rightarrow> error + real list list" where
  "as_matrix v =
     (case v of
        Arr (Ax rows) \<Rightarrow>
          (case those (map row_scalars rows) of Some m \<Rightarrow> Inr m | None \<Rightarrow> Inl OtherError)
      | _ \<Rightarrow> Inl OtherError)"

definition as_dict :: "obs \<Rightarrow> error + (string \<times> obs) list" where
  "as_dict v = (case v of Dict kvs \<Rightarrow> Inr kvs | _ \<Rightarrow> Inl OtherError)"

text \<open>\<^verbatim>\<open>d[k]\<close> on a dictionary, \<^verbatim>\<open>v[k]\<close> on any value, \<^verbatim>\<open>v.keys()\<close>, \<^verbatim>\<open>v[:n]\<close>.\<close>

definition dict_get :: "(string \<times> obs) list \<Rightarrow> string \<Rightarrow> error + obs" where
  "dict_get kvs k = (case map_of kvs k of None \<Rightarrow> Inl KeyError | Some v \<Rightarrow> Inr v)"

definition getitem :: "obs \<Rightarrow> string \<Rightarrow> error + obs" where
  "getitem v k = bnd (as_dict v) (\<lambda>kvs. dict_get kvs k)"

definition keys :: "obs \<Rightarrow> error + string list" where
  "keys v = bnd (as_dict v) (\<lambda>kvs. Inr (map fst kvs))"

definition slice_to :: "nat \<Rightarrow> obs \<Rightarrow> error + obs" where
  "slice_to n v = (case v of Arr (Ax xs) \<Rightarrow> Inr (Arr (Ax (take n xs))) | _ \<Rightarrow> Inl OtherError)"

text \<open>\<^verbatim>\<open>v / c\<close> and \<^verbatim>\<open>a - b\<close> (one-dimensional, an operand of length 1 is broadcast).\<close>

definition divide_by :: "obs \<Rightarrow> real \<Rightarrow> error + obs" where
  "divide_by v c =
     (case v of
        Arr a \<Rightarrow> Inr (Arr (nd_map (\<lambda>x. x / c) a))
      | Num x \<Rightarrow> Inr (Num (x / c))
      | Dict kvs \<Rightarrow> Inl OtherError)"

definition broadcast2 :: "(real \<Rightarrow> real \<Rightarrow> real) \<Rightarrow> real list \<Rightarrow> real list \<Rightarrow> error + real list" where
  "broadcast2 f xs ys =
     (if length xs = length ys then Inr (map2 f xs ys)
      else if length xs = 1 then Inr (map (f (hd xs)) ys)
      else if length ys = 1 then Inr (map (\<lambda>x. f x (hd ys)) xs)
      else Inl OtherError)"

definition np_sub :: "obs \<Rightarrow> obs \<Rightarrow> error + obs" where
  "np_sub a b =
     bnd (as_vec a) (\<lambda>xs. bnd (as_vec b) (\<lambda>ys.
     bnd (broadcast2 (-) xs ys) (\<lambda>zs. Inr (Arr (vec zs)))))"

text \<open>\<^verbatim>\<open>a[mask]\<close> with a one-dimensional boolean mask: the entries along the first axis
  at which the mask holds; the mask must be as long as the first axis.\<close>

definition boolean_index :: "obs \<Rightarrow> bool list \<Rightarrow> error + obs" where
  "boolean_index v msk =
     (case v of
        Arr (Ax xs) \<Rightarrow>
          (if length xs = length msk then Inr (Arr (Ax (map fst (filter snd (zip xs msk)))))
           else Inl OtherError)
      | _ \<Rightarrow> Inl OtherError)"

text \<open>\<^verbatim>\<open>np.concatenate([v, rows])\<close> of a two-dimensional array and a matrix.\<close>

definition concatenate_rows :: "obs \<Rightarrow> real list list \<Rightarrow> error + obs" where
  "concatenate_rows v ys =
     bnd (as_matrix v) (\<lambda>xs.
       if xs = [] \<or> ys = [] \<or> length (hd xs) = length (hd ys)
       then Inr (Arr (matrix (xs @ ys))) else Inl OtherError)"

text \<open>\<^verbatim>\<open>np.stack(vs, axis=0)\<close> of one-dimensional arrays: they must have one length.\<close>

definition stack :: "real list list \<Rightarrow> error + real list list" where
  "stack vs = (if \<forall>v \<in> set vs. length v = length (hd vs) then Inr vs else Inl OtherError)"

text \<open>\<^verbatim>\<open>m[:3, :3] @ v\<close>\<close>

definition rot_apply :: "real list list \<Rightarrow> obs \<Rightarrow> error + real list" where
  "rot_apply m v =
     bnd (as_vec v) (\<lambda>xs.
       let r = map (take 3) (take 3 m) in
       if \<forall>row \<in> set r. length row = length xs
       then Inr (map (\<lambda>row. sum_list (map2 (*) row xs)) r) else Inl OtherError)"

text \<open>\<^verbatim>\<open>sub in s\<close> on strings.\<close>

fun str_contains :: "string \<Rightarrow> string \<Rightarrow> bool" where
  "str_contains [] sub = (sub = [])"
| "str_contains (c # cs) sub = (prefix sub (c # cs) \<or> str_contains cs sub)"

subsection \<open>What the wrapper imports\<close>

text \<open>
  The poses of the simulator (\<^verbatim>\<open>sapien.core.Pose\<close>: construction, \<^verbatim>\<open>inv\<close>, \<^verbatim>\<open>*\<close>,
  \<^verbatim>\<open>p\<close>, \<^verbatim>\<open>q\<close>, \<^verbatim>\<open>to_transformation_matrix\<close>), \<^verbatim>\<open>flatten_state_dict\<close> of
  mani\_skill2, the draws of \<^verbatim>\<open>np.random.uniform(low=-1.0, high=1.0)\<close> (\<open>uniform i\<close> is
  the \<open>i\<close>-th draw of a call) and the image branch of \<^verbatim>\<open>observation\<close>, which needs
  dtypes and \<^verbatim>\<open>cv2.resize\<close> and which no property below is about, are parameters of the
  model. So are three functions of this repository that are not among the sources:
  \<^verbatim>\<open>apply_pose_to_points\<close> and \<^verbatim>\<open>apply_pose_to_point\<close>
  (maniskill2\_learn/utils/lib3d/mani\_skill2\_contrib) and \<^verbatim>\<open>pcd_uniform_downsample\<close>
  (maniskill2\_learn/env/observation\_process), which changes its first argument in place
  and here returns the changed dictionary; its arguments are the dictionary,
  \<^verbatim>\<open>ground_eps\<close> and \<^verbatim>\<open>num\<close>.
\<close>

record 'p helpers =
  Pose :: "real list \<Rightarrow> real list \<Rightarrow> error + 'p"
  pose_inv :: "'p \<Rightarrow> 'p"
  pose_mul :: "'p \<Rightarrow> 'p \<Rightarrow> 'p"
  pose_p :: "'p \<Rightarrow> real list"
  pose_q :: "'p \<Rightarrow> real list"
  to_transformation_matrix :: "'p \<Rightarrow> real list list"
  apply_pose_to_points :: "real list list \<Rightarrow> 'p \<Rightarrow> error + real list list"
  apply_pose_to_point :: "real list \<Rightarrow> 'p \<Rightarrow> error + real list"
  pcd_uniform_downsample :: "(string \<times> obs) list \<Rightarrow> real \<Rightarrow> int \<Rightarrow> error + (string \<times> obs) list"
  flatten_state_dict :: "obs \<Rightarrow> error + obs"
  observation_rgbd :: "(nat \<times> nat) option \<Rightarrow> obs \<Rightarrow> error + obs"
  uniform :: "nat \<Rightarrow> real"

subsection \<open>ManiSkill2\_ObsWrapper\<close>

text \<open>The fields are the arguments of \<^verbatim>\<open>__init__\<close>; \<open>wrapped\<close> is
  \<^verbatim>\<open>self.env\<close>.\<close>

record ('s, 'i) ManiSkill2_ObsWrapper =
  wrapped :: "('s, obs, 'i) gym_env"
  img_size :: "(nat \<times> nat) option"
  n_points :: int
  n_goal_points :: int
  obs_frame :: string
  ignore_dones :: bool
  fix_seed :: "int option"

text \<open>\<^verbatim>\<open>Pose(p=v[:3], q=v[3:])\<close>\<close>

definition make_pose :: "'p helpers \<Rightarrow> obs \<Rightarrow> error + 'p" where
  "make_pose D v = bnd (as_vec v) (\<lambda>xs. Pose D (take 3 xs) (drop 3 xs))"

text \<open>The choice of the frame: \<^verbatim>\<open>to_origin\<close>, or \<^verbatim>\<open>exit(0)\<close> (the
  \<^verbatim>\<open>print\<close> before it writes to standard output, which is not modelled).\<close>

definition frame_to_origin :: "'p helpers \<Rightarrow> string \<Rightarrow> obs \<Rightarrow> error + 'p" where
  "frame_to_origin D frame observation =
     (if frame \<in> set [''base'', ''world''] then
        bnd (getitem observation ''agent'') (\<lambda>agent.
        bnd (getitem agent ''base_pose'') (\<lambda>base_pose.
        bnd (make_pose D base_pose) (\<lambda>pose. Inr (pose_inv D pose))))
      else if frame = ''ee'' then
        bnd (getitem observation ''extra'') (\<lambda>extra.
        bnd (getitem extra ''tcp_pose'') (\<lambda>tcp_pose.
        bnd (make_pose D tcp_pose) (\<lambda>pose. Inr (pose_inv D pose))))
      else Inl (SystemExit 0))"

text \<open>The masking of the invalid points: \<^verbatim>\<open>pointcloud.pop('xyzw', None)\<close> and the
  statements under \<^verbatim>\<open>if xyzw is not None\<close>.\<close>

fun mask_all :: "bool list \<Rightarrow> (string \<times> obs) list \<Rightarrow> error + (string \<times> obs) list" where
  "mask_all msk [] = Inr []"
| "mask_all msk ((k, v) # kvs) =
     bnd (boolean_index v msk) (\<lambda>v'.
     bnd (mask_all msk kvs) (\<lambda>kvs'. Inr ((k, v') # kvs')))"

definition mask_pointcloud :: "(string \<times> obs) list \<Rightarrow> error + (string \<times> obs) list" where
  "mask_pointcloud pc =
     (let pointcloud = AList.delete ''xyzw'' pc in
      case map_of pc ''xyzw'' of
        None \<Rightarrow> Inr pointcloud
      | Some xyzw \<Rightarrow>
          if ''xyz'' \<in> set (map fst pointcloud) then Inl AssertionError
          else
            bnd (as_matrix xyzw) (\<lambda>rows.
              if [] \<in> set rows then Inl OtherError
              else
                let msk = map (\<lambda>r. last r > 0.5) rows;
                    xyz = Arr (matrix (map butlast rows))
                in bnd (mask_all msk pointcloud) (\<lambda>pointcloud.
                   bnd (boolean_index xyz msk) (\<lambda>xyz'.
                     Inr (AList.update ''xyz'' xyz' pointcloud)))))"

text \<open>\<^verbatim>\<open>{mode: pointcloud[mode] for mode in ['xyz', 'rgb', 'robot_seg'] if mode in pointcloud}\<close>\<close>

definition select_modes :: "(string \<times> obs) list \<Rightarrow> (string \<times> obs) list" where
  "select_modes pointcloud =
     List.map_filter (\<lambda>mode. map_option (Pair mode) (map_of pointcloud mode))
       [''xyz'', ''rgb'', ''robot_seg'']"

text \<open>The poses and positions read from \<^verbatim>\<open>observation['extra']\<close>.\<close>

definition tcp_pose_of :: "'p helpers \<Rightarrow> obs \<Rightarrow> string list \<Rightarrow> error + 'p option" where
  "tcp_pose_of D extra obs_extra_keys =
     (if ''tcp_pose'' \<in> set obs_extra_keys then
        bnd (getitem extra ''tcp_pose'') (\<lambda>tcp_pose.
        bnd (make_pose D tcp_pose) (\<lambda>pose. Inr (Some pose)))
      else Inr None)"

definition goal_of ::
  "'p helpers \<Rightarrow> obs \<Rightarrow> string list \<Rightarrow> error + (obs option \<times> 'p option)" where
  "goal_of D extra obs_extra_keys =
     (if ''goal_pos'' \<in> set obs_extra_keys then
        bnd (getitem extra ''goal_pos'') (\<lambda>goal_pos. Inr (Some goal_pos, None))
      else if ''goal_pose'' \<in> set obs_extra_keys then
        bnd (getitem extra ''goal_pose'') (\<lambda>goal_pose.
        bnd (slice_to 3 goal_pose) (\<lambda>goal_pos.
        bnd (make_pose D goal_pose) (\<lambda>pose. Inr (Some goal_pos, Some pose))))
      else Inr (None, None))"

definition tcp_to_goal :: "obs \<Rightarrow> 'p option \<Rightarrow> obs option \<Rightarrow> error + obs option" where
  "tcp_to_goal extra tcp_pose goal_pos =
     (case (tcp_pose, goal_pos) of
        (Some pose, Some g) \<Rightarrow>
          bnd (getitem extra ''tcp_pose'') (\<lambda>t.
          bnd (slice_to 3 t) (\<lambda>t3.
          bnd (np_sub g t3) (\<lambda>d. Inr (Some d))))
      | _ \<Rightarrow> Inr None)"

text \<open>The injected goal points: the statements under \<^verbatim>\<open>if self.n_goal_points > 0\<close>.
  The sum \<^verbatim>\<open>goal_pts_xyz + goal_pos[None, :]\<close> needs a goal position of length 3, or of
  length 1, which numpy broadcasts; \<open>green\<close> is \<^verbatim>\<open>np.zeros_like\<close> with column 1 set
  to 1.\<close>

definition goal_points :: "'p helpers \<Rightarrow> nat \<Rightarrow> real list list" where
  "goal_points D n = map (\<lambda>i. map (\<lambda>j. uniform D (3 * i + j) * (1 / 100)) [0..<3]) [0..<n]"

definition green :: "real list list \<Rightarrow> error + real list list" where
  "green pts =
     (if \<exists>r \<in> set pts. length r < 2 then Inl OtherError
      else Inr (map (\<lambda>r. (replicate (length r) 0)[1 := 1]) pts))"

definition add_goal_points ::
  "'p helpers \<Rightarrow> int \<Rightarrow> 'p \<Rightarrow> obs option \<Rightarrow> (string \<times> obs) list
     \<Rightarrow> error + (string \<times> obs) list" where
  "add_goal_points D n to_origin goal_pos ret =
     (if n > 0 then
        (case goal_pos of
           None \<Rightarrow> Inl AssertionError
         | Some g \<Rightarrow>
             bnd (as_vec g) (\<lambda>gv.
             bnd (if length gv = 3 then Inr gv
                  else if length gv = 1 then Inr (replicate 3 (hd gv))
                  else Inl OtherError) (\<lambda>gv3.
             bnd (apply_pose_to_points D
                    (map (\<lambda>r. map2 (+) r gv3) (goal_points D (nat n))) to_origin)
               (\<lambda>goal_pts_xyz.
             bnd (green goal_pts_xyz) (\<lambda>goal_pts_rgb.
             bnd (dict_get ret ''xyz'') (\<lambda>xyz.
             bnd (concatenate_rows xyz goal_pts_xyz) (\<lambda>xyz'.
             bnd (dict_get ret ''rgb'') (\<lambda>rgb.
             bnd (concatenate_rows rgb goal_pts_rgb) (\<lambda>rgb'.
               Inr (AList.update ''rgb'' rgb' (AList.update ''xyz'' xyz' ret)))))))))))
      else Inr ret)"

text \<open>\<^verbatim>\<open>frame_related_states\<close>: positions seen from the chosen frame.\<close>

definition point_in_frame :: "'p helpers \<Rightarrow> 'p \<Rightarrow> obs \<Rightarrow> error + real list" where
  "point_in_frame D to_origin v = bnd (as_vec v) (\<lambda>x. apply_pose_to_point D x to_origin)"

definition opt_list :: "bool \<Rightarrow> error + 'a \<Rightarrow> error + 'a list" where
  "opt_list c m = (if c then bnd m (\<lambda>x. Inr [x]) else Inr [])"

definition frame_related_states ::
  "'p helpers \<Rightarrow> obs \<Rightarrow> obs \<Rightarrow> string list \<Rightarrow> 'p \<Rightarrow> 'p option \<Rightarrow> obs option \<Rightarrow> obs option
     \<Rightarrow> error + real list list" where
  "frame_related_states D observation extra obs_extra_keys to_origin tcp_pose goal_pos
       tcp_to_goal_pos =
     bnd (getitem observation ''agent'') (\<lambda>agent.
     bnd (getitem agent ''base_pose'') (\<lambda>base_pose.
     bnd (slice_to 3 base_pose) (\<lambda>base_p.
     bnd (point_in_frame D to_origin base_p) (\<lambda>base_info.
     bnd (case tcp_pose of None \<Rightarrow> Inr []
          | Some pose \<Rightarrow> bnd (apply_pose_to_point D (pose_p D pose) to_origin) (\<lambda>x. Inr [x]))
       (\<lambda>tcp_info.
     bnd (case goal_pos of None \<Rightarrow> Inr []
          | Some g \<Rightarrow> bnd (point_in_frame D to_origin g) (\<lambda>x. Inr [x])) (\<lambda>goal_info.
     bnd (case tcp_to_goal_pos of None \<Rightarrow> Inr []
          | Some d \<Rightarrow> bnd (point_in_frame D to_origin d) (\<lambda>x. Inr [x])) (\<lambda>tcp_to_goal_info.
     bnd (opt_list (''gripper_pose'' \<in> set obs_extra_keys)
            (bnd (getitem extra ''gripper_pose'') (\<lambda>gp.
             bnd (slice_to 3 gp) (point_in_frame D to_origin)))) (\<lambda>gripper_info.
     bnd (opt_list (''joint_axis'' \<in> set obs_extra_keys)
            (bnd (getitem extra ''joint_axis'')
               (rot_apply (to_transformation_matrix D to_origin)))) (\<lambda>joint_axis_info.
     bnd (opt_list (''link_pos'' \<in> set obs_extra_keys)
            (bnd (getitem extra ''link_pos'') (point_in_frame D to_origin))) (\<lambda>link_pos_info.
       stack ([base_info] @ tcp_info @ goal_info @ tcp_to_goal_info @ gripper_info
                @ joint_axis_info @ link_pos_info)))))))))))"

text \<open>\<^verbatim>\<open>frame_goal_related_poses\<close> and \<^verbatim>\<open>to_frames\<close>. Their rows and matrices
  come from the simulator with one shape each, so that \<^verbatim>\<open>np.stack\<close> of them does not
  fail.\<close>

definition pose_row :: "'p helpers \<Rightarrow> 'p \<Rightarrow> real list" where
  "pose_row D pose = pose_p D pose @ pose_q D pose"

definition frame_goal_related_poses ::
  "'p helpers \<Rightarrow> 'p \<Rightarrow> 'p option \<Rightarrow> 'p option \<Rightarrow> real list list" where
  "frame_goal_related_poses D to_origin tcp_pose goal_pose =
     (case goal_pose of
        None \<Rightarrow> []
      | Some g \<Rightarrow>
          pose_row D (pose_mul D to_origin g) #
          (case tcp_pose of
             None \<Rightarrow> []
           | Some t \<Rightarrow> [pose_row D (pose_mul D to_origin (pose_mul D g (pose_inv D t)))]))"

definition to_frames :: "'p helpers \<Rightarrow> 'p \<Rightarrow> 'p \<Rightarrow> 'p option \<Rightarrow> 'p option \<Rightarrow> real list list list" where
  "to_frames D to_origin base tcp_pose goal_pose =
     map (\<lambda>pose. to_transformation_matrix D (pose_inv D (pose_mul D to_origin pose)))
       ([base] @ (case tcp_pose of None \<Rightarrow> [] | Some t \<Rightarrow> [t])
               @ (case goal_pose of None \<Rightarrow> [] | Some g \<Rightarrow> [g]))"

text \<open>\<^verbatim>\<open>ret['state']\<close>: the loop over the remaining keys of
  \<^verbatim>\<open>observation['extra']\<close> appends \<^verbatim>\<open>val.flatten()\<close> of an array and
  \<^verbatim>\<open>np.array([val])\<close> of a number.\<close>

definition skipped_keys :: "string list" where
  "skipped_keys = [''tcp_pose'', ''goal_pos'', ''goal_pose'', ''tcp_to_goal_pos'',
     ''tcp_to_goal_pose'', ''joint_axis'', ''link_pos'']"

fun extra_state :: "obs \<Rightarrow> string list \<Rightarrow> error + real list" where
  "extra_state extra [] = Inr []"
| "extra_state extra (k # ks) =
     (if k \<notin> set skipped_keys then
        bnd (getitem extra k) (\<lambda>val.
        bnd (case val of Arr a \<Rightarrow> Inr (nd_flat a) | Num x \<Rightarrow> Inr [x]
             | Dict kvs \<Rightarrow> Inl OtherError) (\<lambda>xs.
        bnd (extra_state extra ks) (\<lambda>rest. Inr (xs @ rest))))
      else extra_state extra ks)"

definition agent_state ::
  "obs \<Rightarrow> obs \<Rightarrow> string list \<Rightarrow> real list list \<Rightarrow> real list list \<Rightarrow> error + real list" where
  "agent_state observation extra obs_extra_keys frs fgp =
     bnd (getitem observation ''agent'') (\<lambda>agent.
     bnd (getitem agent ''qpos'') (\<lambda>qpos.
     bnd (getitem agent ''qvel'') (\<lambda>qvel.
     bnd (as_vec qpos) (\<lambda>qp.
     bnd (as_vec qvel) (\<lambda>qv.
     bnd (extra_state extra obs_extra_keys) (\<lambda>rest.
       Inr (qp @ qv @ concat frs @ concat fgp @ rest)))))))"

text \<open>The point-cloud branch after the masking.\<close>

definition pcd_process ::
  "'p helpers \<Rightarrow> ('s, 'i) ManiSkill2_ObsWrapper \<Rightarrow> obs \<Rightarrow> 'p \<Rightarrow> (string \<times> obs) list
     \<Rightarrow> error + obs" where
  "pcd_process D w observation to_origin ret0 =
     bnd (dict_get ret0 ''rgb'') (\<lambda>rgb.
     bnd (divide_by rgb 255) (\<lambda>rgb'.
     bnd (if \<not> str_contains (env_str (wrapped w)) ''PointCloudPreprocessObsWrapper''
          then pcd_uniform_downsample D (AList.update ''rgb'' rgb' ret0) (1 / 10000) (n_points w)
          else Inr (AList.update ''rgb'' rgb' ret0)) (\<lambda>ret1.
     bnd (dict_get ret1 ''xyz'') (\<lambda>xyz.
     bnd (as_matrix xyz) (\<lambda>pts.
     bnd (apply_pose_to_points D pts to_origin) (\<lambda>pts'.
     bnd (getitem observation ''extra'') (\<lambda>extra.
     bnd (keys extra) (\<lambda>obs_extra_keys.
     bnd (tcp_pose_of D extra obs_extra_keys) (\<lambda>tcp_pose.
     bnd (goal_of D extra obs_extra_keys) (\<lambda>(goal_pos, goal_pose).
     bnd (tcp_to_goal extra tcp_pose goal_pos) (\<lambda>tcp_to_goal_pos.
     bnd (add_goal_points D (n_goal_points w) to_origin goal_pos
            (AList.update ''xyz'' (Arr (matrix pts')) ret1)) (\<lambda>ret2.
     bnd (frame_related_states D observation extra obs_extra_keys to_origin tcp_pose goal_pos
            tcp_to_goal_pos) (\<lambda>frs.
     bnd (getitem observation ''agent'') (\<lambda>agent.
     bnd (getitem agent ''base_pose'') (\<lambda>base_pose.
     bnd (make_pose D base_pose) (\<lambda>base.
     bnd (agent_state observation extra obs_extra_keys frs
            (frame_goal_related_poses D to_origin tcp_pose goal_pose)) (\<lambda>state.
       let fgp = frame_goal_related_poses D to_origin tcp_pose goal_pose;
           ret3 = AList.update ''frame_related_states'' (Arr (matrix frs)) ret2;
           ret4 = (if length fgp > 0
                   then AList.update ''frame_goal_related_poses'' (Arr (matrix fgp)) ret3
                   else ret3);
           ret5 = AList.update ''to_frames''
                    (Arr (Ax (map matrix (to_frames D to_origin base tcp_pose goal_pose)))) ret4
       in Inr (Dict (AList.update ''state'' (Arr (vec state)) ret5)))))))))))))))))))"

definition observation_pointcloud ::
  "'p helpers \<Rightarrow> ('s, 'i) ManiSkill2_ObsWrapper \<Rightarrow> obs \<Rightarrow> error + obs" where
  "observation_pointcloud D w observation =
     bnd (frame_to_origin D (obs_frame w) observation) (\<lambda>to_origin.
     bnd (getitem observation ''pointcloud'') (\<lambda>pc.
     bnd (as_dict pc) (\<lambda>pc.
     bnd (mask_pointcloud pc) (\<lambda>pointcloud.
       pcd_process D w observation to_origin (select_modes pointcloud)))))"

text \<open>The particles branch.\<close>

definition observation_particles :: "'p helpers \<Rightarrow> obs \<Rightarrow> error + obs" where
  "observation_particles D observation =
     bnd (getitem observation ''particles'') (\<lambda>particles.
     bnd (getitem particles ''x'') (\<lambda>xyz.
     bnd (getitem particles ''v'') (\<lambda>vel.
     bnd (getitem observation ''agent'') (\<lambda>agent.
     bnd (flatten_state_dict D agent) (\<lambda>state.
       Inr (Dict [(''xyz'', xyz), (''state'', state)]))))))"

text \<open>\<^verbatim>\<open>ManiSkill2_ObsWrapper.observation\<close>; \<^verbatim>\<open>self.obs_mode\<close> is the attribute of
  the wrapped environment.\<close>

definition observation ::
  "'p helpers \<Rightarrow> ('s, 'i) ManiSkill2_ObsWrapper \<Rightarrow> obs \<Rightarrow> error + obs" where
  "observation D w obsv =
     (if obs_mode (wrapped w) = ''state'' then Inr obsv
      else if obs_mode (wrapped w) = ''rgbd'' then observation_rgbd D (img_size w) obsv
      else if obs_mode (wrapped w) = ''pointcloud'' then observation_pointcloud D w obsv
      else if obs_mode (wrapped w) = ''particles'' then
        bnd (keys obsv) (\<lambda>ks.
          if ''particles'' \<in> set ks then observation_particles D obsv else Inr obsv)
      else Inr obsv)"

text \<open>
  \<^verbatim>\<open>ManiSkill2_ObsWrapper.step\<close>. The call \<^verbatim>\<open>super().step(action)\<close> is
  \<^verbatim>\<open>ObservationWrapper.step\<close> of gym: it steps the wrapped environment and passes the
  observation through \<^verbatim>\<open>self.observation\<close>.
\<close>

definition ManiSkill2_ObsWrapper_step ::
  "'p helpers \<Rightarrow> ('s, 'i) ManiSkill2_ObsWrapper \<Rightarrow> action \<Rightarrow> 's
     \<Rightarrow> error + ((obs \<times> real \<times> bool \<times> 'i) \<times> 's)" where
  "ManiSkill2_ObsWrapper_step D w a s =
     bnd (env_step (wrapped w) a s) (\<lambda>((obsv, reward, done, info), s').
     bnd (observation D w obsv) (\<lambda>next_obs.
       Inr ((next_obs, reward, (if ignore_dones w then False else done), info), s')))"

subsection \<open>What the properties speak of\<close>

text \<open>The number of points of an array (its length along the first axis), of a field of
  a returned observation, and the number of goal points the wrapper injects.\<close>

definition n_rows :: "obs \<Rightarrow> nat option" where
  "n_rows v = (case v of Arr (Ax xs) \<Rightarrow> Some (length xs) | _ \<Rightarrow> None)"

definition field_rows :: "(string \<times> obs) list \<Rightarrow> string \<Rightarrow> nat option" where
  "field_rows kvs k = (case map_of kvs k of Some v \<Rightarrow> n_rows v | None \<Rightarrow> None)"

definition result_rows :: "error + obs \<Rightarrow> string \<Rightarrow> nat option" where
  "result_rows r k = (case r of Inr (Dict kvs) \<Rightarrow> field_rows kvs k | _ \<Rightarrow> None)"

definition n_goal :: "('s, 'i) ManiSkill2_ObsWrapper \<Rightarrow> nat" where
  "n_goal w = (if n_goal_points w > 0 then nat (n_goal_points w) else 0)"

text \<open>
  Modelled from the spec: \<^verbatim>\<open>pcd_uniform_downsample\<close>
  (maniskill2\_learn/env/observation\_process) is not among the sources. The spec gives
  its point count only, the ``downsampled point count'': after the call with \<^verbatim>\<open>num\<close>,
  the fields \<^verbatim>\<open>xyz\<close> and \<^verbatim>\<open>rgb\<close> of the dictionary are still there and are arrays
  of \<^verbatim>\<open>num\<close> points.
\<close>

definition downsample_count :: "'p helpers \<Rightarrow> bool" where
  "downsample_count D =
     (\<forall>ret eps num ret'. pcd_uniform_downsample D ret eps num = Inr ret' \<longrightarrow>
        (\<forall>k \<in> {''xyz'', ''rgb''}.
           (k \<in> fst ` set ret \<longrightarrow> k \<in> fst ` set ret') \<and>
           (\<forall>v. map_of ret' k = Some v \<longrightarrow> n_rows v = Some (nat num))))"

text \<open>
  Modelled from the spec: \<^verbatim>\<open>apply_pose_to_points\<close>
  (maniskill2\_learn/utils/lib3d/mani\_skill2\_contrib) is not among the sources. The spec
  has it convert the points to the target reference frame: it returns as many points as it
  is given.
\<close>

definition pose_count :: "'p helpers \<Rightarrow> bool" where
  "pose_count D =
     (\<forall>pts pose pts'. apply_pose_to_points D pts pose = Inr pts' \<longrightarrow> length pts' = length pts)"

subsection \<open>An instance of the parameters\<close>

text \<open>
  For evaluating the model on concrete observations: poses are pairs of a position and a
  unit quaternion \<open>[w, x, y, z]\<close>, with the rigid motions they stand for, in exact
  arithmetic.
\<close>

definition quat_rotate :: "real list \<Rightarrow> real list \<Rightarrow> real list" where
  "quat_rotate q v =
     (case (q, v) of
        ([w, x, y, z], [a, b, c]) \<Rightarrow>
          [(1 - 2 * (y * y + z * z)) * a + 2 * (x * y - z * w) * b + 2 * (x * z + y * w) * c,
           2 * (x * y + z * w) * a + (1 - 2 * (x * x + z * z)) * b + 2 * (y * z - x * w) * c,
           2 * (x * z - y * w) * a + 2 * (y * z + x * w) * b + (1 - 2 * (x * x + y * y)) * c]
      | _ \<Rightarrow> v)"

definition quat_mul :: "real list \<Rightarrow> real list \<Rightarrow> real list" where
  "quat_mul q r =
     (case (q, r) of
        ([a, b, c, d], [e, f, g, h]) \<Rightarrow>
          [a * e - b * f - c * g - d * h, a * f + b * e + c * h - d * g,
           a * g - b * h + c * e + d * f, a * h + b * g - c * f + d * e]
      | _ \<Rightarrow> q)"

definition quat_conj :: "real list \<Rightarrow> real list" where
  "quat_conj q = (case q of w # xyz \<Rightarrow> w # map uminus xyz | [] \<Rightarrow> [])"

definition rigid_inv :: "real list \<times> real list \<Rightarrow> real list \<times> real list" where
  "rigid_inv pose = (map uminus (quat_rotate (quat_conj (snd pose)) (fst pose)), quat_conj (snd pose))"

definition rigid_mul ::
  "real list \<times> real list \<Rightarrow> real list \<times> real list \<Rightarrow> real list \<times> real list" where
  "rigid_mul a b = (map2 (+) (fst a) (quat_rotate (snd a) (fst b)), quat_mul (snd a) (snd b))"

definition rigid_apply :: "real list \<times> real list \<Rightarrow> real list \<Rightarrow> real list" where
  "rigid_apply pose v = map2 (+) (quat_rotate (snd pose) v) (fst pose)"

definition rigid_matrix :: "real list \<times> real list \<Rightarrow> real list list" where
  "rigid_matrix pose =
     map (\<lambda>i. map (\<lambda>e. quat_rotate (snd pose) e ! i) [[1, 0, 0], [0, 1, 0], [0, 0, 1]]
               @ [fst pose ! i]) [0..<3]
     @ [[0, 0, 0, 1]]"

text \<open>
  A downsampling with the point count of the spec, in place of
  \<^verbatim>\<open>pcd_uniform_downsample\<close>: \<open>first_points\<close> keeps the first \<open>num\<close> entries of
  every field, a shorter field being padded with its first entry; it fails on an empty
  field.
\<close>

fun first_points :: "(string \<times> obs) list \<Rightarrow> real \<Rightarrow> int \<Rightarrow> error + (string \<times> obs) list" where
  "first_points [] eps num = Inr []"
| "first_points ((k, v) # kvs) eps num =
     (case v of
        Arr (Ax (x # xs)) \<Rightarrow>
          bnd (first_points kvs eps num) (\<lambda>kvs'.
            Inr ((k, Arr (Ax (take (nat num) ((x # xs) @ replicate (nat num - length (x # xs)) x))))
                 # kvs'))
      | _ \<Rightarrow> Inl OtherError)"

primrec obs_flat :: "obs \<Rightarrow> real list" where
  "obs_flat (Arr a) = nd_flat a"
| "obs_flat (Num x) = [x]"
| "obs_flat (Dict kvs) = concat (map snd (map (map_prod id obs_flat) kvs))"

definition rigid_helpers :: "(real list \<times> real list) helpers" where
  "rigid_helpers =
     \<lparr>Pose = (\<lambda>p q. if length p = 3 \<and> length q = 4 then Inr (p, q) else Inl OtherError),
      pose_inv = rigid_inv,
      pose_mul = rigid_mul,
      pose_p = fst,
      pose_q = snd,
      to_transformation_matrix = rigid_matrix,
      apply_pose_to_points =
        (\<lambda>pts pose. if \<forall>v \<in> set pts. length v = 3 then Inr (map (rigid_apply pose) pts)
                     else Inl OtherError),
      apply_pose_to_point =
        (\<lambda>v pose. if length v = 3 then Inr (rigid_apply pose v) else Inl OtherError),
      pcd_uniform_downsample = first_points,
      flatten_state_dict = (\<lambda>v. Inr (Arr (vec (obs_flat v)))),
      observation_rgbd = (\<lambda>size v. Inl OtherError),
      uniform = (\<lambda>i. if even i then 1 / 2 else - (1 / 2))\<rparr>"

subsection \<open>Concrete environments and observations\<close>

definition demo_env :: "(nat, gval, gval) gym_env" where
  "demo_env =
     \<lparr>action_space_Discrete = True, obs_mode = ''rgbd'', env_str = ''<DemoEnv>'',
      env_reset = (\<lambda>s. Inr (GDict [(''state'', NdArray Float64 (Ax [Sc 0, Sc 1])),
                                     (''depth'', NdArray Float16 (Ax [Sc 1]))], 0)),
      env_step = (\<lambda>a s. Inr ((GDict [(''state'', NdArray Float64 (Ax [Sc 1, Sc 1])),
                                      (''depth'', NdArray Float16 (Ax [Sc 1]))],
                               3 / 2, False,
                               GDict [(''success'', PyBool False),
                                      (''dist'', NdArray Float64 (Sc 1))]), Suc s))\<rparr>"

definition demo_wrapper :: "(nat, gval, gval) ExtendedEnv" where
  "demo_wrapper = \<lparr>env = demo_env, is_discrete = True, is_cost = - 1, reward_scale = - 2\<rparr>"

text \<open>An environment under a time limit, which reports \<open>v\<close> as
  \<^verbatim>\<open>info["TimeLimit.truncated"]\<close>.\<close>

definition truncating_env :: "gval \<Rightarrow> (nat, gval, gval) gym_env" where
  "truncating_env v =
     \<lparr>action_space_Discrete = False, obs_mode = ''state'', env_str = ''<TimeLimit>'',
      env_reset = (\<lambda>s. Inr (NdArray Float32 (Ax [Sc 0]), 0)),
      env_step = (\<lambda>a s. Inr ((NdArray Float32 (Ax [Sc 0]), 1, True,
                               GDict [(''TimeLimit.truncated'', v)]), Suc s))\<rparr>"

definition truncating_wrapper :: "gval \<Rightarrow> (nat, gval, gval) ExtendedEnv" where
  "truncating_wrapper v =
     \<lparr>env = truncating_env v, is_discrete = False, is_cost = 1, reward_scale = 1\<rparr>"

text \<open>An environment with a continuous action space that pays the reward \<open>r\<close>, and
  the float64 number nearest to one tenth, which Python writes \<^verbatim>\<open>0.1\<close>.\<close>

definition reward_env :: "real \<Rightarrow> (nat, gval, gval) gym_env" where
  "reward_env r =
     \<lparr>action_space_Discrete = False, obs_mode = ''state'', env_str = ''<RewardEnv>'',
      env_reset = (\<lambda>s. Inr (NdArray Float32 (Ax [Sc 0]), 0)),
      env_step = (\<lambda>a s. Inr ((NdArray Float32 (Ax [Sc 0]), r, False, GDict []), Suc s))\<rparr>"

definition reward_wrapper :: "real \<Rightarrow> real \<Rightarrow> (nat, gval, gval) ExtendedEnv" where
  "reward_wrapper r scale =
     \<lparr>env = reward_env r, is_discrete = False, is_cost = 1, reward_scale = scale\<rparr>"

definition tenth :: real where
  "tenth = 3602879701896397 / 36028797018963968"

text \<open>The float64 number nearest to \<open>10 ^ 30\<close>, which Python writes \<^verbatim>\<open>1e30\<close>.\<close>

definition huge :: real where
  "huge = 1000000000000000019884624838656"

text \<open>A cloud of four points, the second one outside the depth range of the camera.\<close>

definition cloud_rows :: "real list list" where
  "cloud_rows = [[1, 0, 0, 1], [2, 0, 0, 0], [3, 0, 0, 1], [4, 1, 0, 1]]"

definition cloud_pc :: "(string \<times> obs) list" where
  "cloud_pc =
     [(''xyzw'', Arr (matrix cloud_rows)),
      (''rgb'', Arr (matrix [[255, 0, 0], [0, 255, 0], [0, 0, 255], [255, 255, 255]]))]"

definition cloud_obs :: obs where
  "cloud_obs =
     Dict [(''pointcloud'', Dict cloud_pc),
           (''agent'',
            Dict [(''qpos'', Arr (vec [0])), (''qvel'', Arr (vec [0])),
                  (''base_pose'', Arr (vec [1, 0, 0, 1, 0, 0, 0]))]),
           (''extra'', Dict [(''goal_pos'', Arr (vec [2, 0, 0]))])]"

definition cloud_env :: "string \<Rightarrow> string \<Rightarrow> (nat, obs, unit) gym_env" where
  "cloud_env mode name =
     \<lparr>action_space_Discrete = False, obs_mode = mode, env_str = name,
      env_reset = (\<lambda>s. Inr (cloud_obs, 0)),
      env_step = (\<lambda>a s. Inr ((cloud_obs, 1, True, ()), Suc s))\<rparr>"

definition cloud_wrapper ::
  "string \<Rightarrow> string \<Rightarrow> int \<Rightarrow> string \<Rightarrow> (nat, unit) ManiSkill2_ObsWrapper" where
  "cloud_wrapper mode name goals frame =
     \<lparr>wrapped = cloud_env mode name, img_size = None, n_points = 2, n_goal_points = goals,
      obs_frame = frame, ignore_dones = True, fix_seed = None\<rparr>"

definition plain_wrapper :: "(nat, unit) ManiSkill2_ObsWrapper" where
  "plain_wrapper = cloud_wrapper ''pointcloud'' ''<PickCube-v0>'' 2 ''base''"

definition preprocessed_wrapper :: "(nat, unit) ManiSkill2_ObsWrapper" where
  "preprocessed_wrapper =
     cloud_wrapper ''pointcloud'' ''<PointCloudPreprocessObsWrapper<PickCube-v0>>'' (- 1) ''base''"

definition camera_wrapper :: "(nat, unit) ManiSkill2_ObsWrapper" where
  "camera_wrapper = cloud_wrapper ''pointcloud'' ''<PickCube-v0>'' 2 ''camera''"

definition state_wrapper :: "(nat, unit) ManiSkill2_ObsWrapper" where
  "state_wrapper = cloud_wrapper ''state'' ''<PickCube-v0>'' (- 1) ''base''"

text \<open>What \<open>plain_wrapper\<close> and \<open>preprocessed_wrapper\<close> return on \<open>cloud_obs\<close>.\<close>

definition frame_keys :: "(string \<times> obs) list" where
  "frame_keys =
     [(''frame_related_states'', Arr (matrix [[0, 0, 0], [1, 0, 0]])),
      (''to_frames'',
       Arr (Ax [matrix [[1, 0, 0, 0], [0, 1, 0, 0], [0, 0, 1, 0], [0, 0, 0, 1]]])),
      (''state'', Arr (vec [0, 0, 0, 0, 0, 1, 0, 0]))]"

definition plain_result :: obs where
  "plain_result =
     Dict ([(''xyz'', Arr (matrix [[0, 0, 0], [2, 0, 0],
                                  [201 / 200, - (1 / 200), 1 / 200],
                                  [199 / 200, 1 / 200, - (1 / 200)]])),
            (''rgb'', Arr (matrix [[1, 0, 0], [0, 0, 1], [0, 1, 0], [0, 1, 0]]))]
           @ frame_keys)"

definition preprocessed_result :: obs where
  "preprocessed_result =
     Dict ([(''xyz'', Arr (matrix [[0, 0, 0], [2, 0, 0], [3, 1, 0]])),
            (''rgb'', Arr (matrix [[1, 0, 0], [0, 0, 1], [1, 1, 1]]))]
           @ frame_keys)"

section \<open>Properties\<close>

subsection \<open>Auxiliary facts\<close>

lemma bnd_Inl [simp]: "bnd (Inl e) f = Inl e"
  by (simp add: bnd_def)

lemma bnd_Inr [simp]: "bnd (Inr x) f = f x"
  by (simp add: bnd_def)

lemma bnd_eq_Inr: "bnd m f = Inr y \<longleftrightarrow> (\<exists>x. m = Inr x \<and> f x = Inr y)"
  by (cases m) simp_all

lemma upt_0_3: "[0..<3] = [0, 1, 2::nat]"
  by code_simp

lemma upt_0_2: "[0..<2] = [0, 1::nat]"
  by code_simp

lemma py_int_of_int: "py_int (of_int k) = k"
  by (simp add: py_int_def)

text \<open>Rounding is symmetric, and \<open>ilog2\<close> is the floor of the binary logarithm.\<close>

lemma round_even_minus: "round_even (- q) = - round_even q"
proof (cases "q \<in> \<int>")
  case True
  then obtain k where "q = of_int k" by (auto elim: Ints_cases)
  then show ?thesis by (simp add: round_even_def Let_def flip: of_int_minus)
next
  case False
  then have "q \<noteq> of_int \<lfloor>q\<rfloor>" by (metis Ints_of_int)
  then have f: "\<lfloor>- q\<rfloor> = - \<lfloor>q\<rfloor> - 1"
    by (simp add: floor_minus ceiling_altdef)
  show ?thesis
    unfolding round_even_def Let_def f
    by (auto simp: algebra_simps)
qed

lemma round_ieee_minus: "round_ieee p emin emax (- x) = fl_neg (round_ieee p emin emax x)"
  by (simp add: round_ieee_def Let_def round_even_minus fl_neg_def)

lemma np_float32_f64_mul_minus:
  "np_float32 (f64_mul x (- y)) = fl_neg (np_float32 (f64_mul x y))"
proof -
  have "f64_mul x (- y) = fl_neg (f64_mul x y)"
    using round_ieee_minus[of 53 "- 1074" 1023 "x * y"] by (simp add: f64_mul_def)
  then show ?thesis
    by (cases "f64_mul x y") (simp_all add: np_float32_def fl_neg_def round_ieee_minus)
qed

lemma floor_log2_eqI:
  assumes "0 < x" "2 powi k \<le> x" "x < 2 powi (k + 1)"
  shows "\<lfloor>log 2 x\<rfloor> = k"
proof -
  have a: "2 powr real_of_int k = (2::real) powi k"
    by (rule powr_real_of_int') auto
  have b: "2 powr real_of_int (k + 1) = (2::real) powi (k + 1)"
    by (rule powr_real_of_int') auto
  have "(\<lfloor>log 2 x\<rfloor> = k) = (2 powr real_of_int k \<le> x \<and> x < 2 powr real_of_int (k + 1))"
    by (rule floor_log_eq_powr_iff) (use assms in auto)
  with assms show ?thesis unfolding a b by blast
qed

lemma bitlen_bounds_nat:
  assumes "0 < n"
  shows "\<exists>j::nat. bitlen n = int j + 1 \<and> 2 ^ j \<le> n \<and> n < 2 ^ (j + 1)"
proof -
  from bitlen_bounds[OF assms] have b: "2 ^ nat (bitlen n - 1) \<le> n" "n < 2 ^ nat (bitlen n)"
    by auto
  from assms have "1 \<le> bitlen n" by (auto simp: bitlen_alt_def)
  then have "bitlen n = int (nat (bitlen n - 1)) + 1" "nat (bitlen n) = nat (bitlen n - 1) + 1"
    by auto
  with b show ?thesis by metis
qed

lemma ilog2_floor_log:
  assumes "0 < x"
  shows "ilog2 x = \<lfloor>log 2 x\<rfloor>"
proof (cases "1 \<le> x")
  case True
  then have n: "0 < \<lfloor>x\<rfloor>" by simp
  from bitlen_bounds_nat[OF n] obtain j :: nat where
    j: "bitlen \<lfloor>x\<rfloor> = int j + 1" "2 ^ j \<le> \<lfloor>x\<rfloor>" "\<lfloor>x\<rfloor> < 2 ^ (j + 1)"
    by blast
  from j(2) have "of_int (2 ^ j) \<le> x" by (simp add: le_floor_iff del: of_int_power)
  then have l: "2 powi (int j) \<le> x" by simp
  from j(3) have "x < of_int (2 ^ (j + 1))" by (simp add: floor_less_iff del: of_int_power)
  then have u: "x < 2 powi (int j + 1)"
    by (simp add: power_int_add)
  from floor_log2_eqI[OF assms l u] j(1) True show ?thesis
    by (simp add: ilog2_def)
next
  case False
  with assms have y: "1 < 1 / x" by simp
  then have m: "0 < \<lceil>1 / x\<rceil> - 1" by (simp add: less_ceiling_iff)
  from bitlen_bounds_nat[OF m] obtain j :: nat where
    j: "bitlen (\<lceil>1 / x\<rceil> - 1) = int j + 1" "2 ^ j \<le> \<lceil>1 / x\<rceil> - 1"
       "\<lceil>1 / x\<rceil> - 1 < 2 ^ (j + 1)"
    by blast
  from j(2) have "(2::int) ^ j < \<lceil>1 / x\<rceil>" by simp
  then have "of_int (2 ^ j) < 1 / x" by (simp add: less_ceiling_iff del: of_int_power)
  then have "2 ^ j < 1 / x" by simp
  with assms have u: "x < 1 / 2 ^ j"
    by (simp add: field_simps)
  from j(3) have "\<lceil>1 / x\<rceil> \<le> 2 ^ (j + 1)" by simp
  then have "1 / x \<le> of_int (2 ^ (j + 1))" by (simp add: ceiling_le_iff del: of_int_power)
  then have "1 / x \<le> 2 ^ (j + 1)" by simp
  with assms have l: "1 / 2 ^ (j + 1) \<le> x"
    by (simp add: field_simps)
  have "\<lfloor>log 2 x\<rfloor> = - (int j + 1)"
  proof (rule floor_log2_eqI[OF assms])
    have "- (int j + 1) = - int (j + 1)" by simp
    then have p: "(2::real) powi (- (int j + 1)) = 1 / 2 ^ (j + 1)"
      by (simp only: power_int_minus_divide power_int_of_nat)
    show "2 powi - (int j + 1) \<le> x"
      unfolding p by (rule l)
    have "- (int j + 1) + 1 = - int j" by simp
    then have q: "(2::real) powi (- (int j + 1) + 1) = 1 / 2 ^ j"
      by (simp only: power_int_minus_divide power_int_of_nat)
    show "x < 2 powi (- (int j + 1) + 1)"
      unfolding q by (rule u)
  qed
  with j(1) False show ?thesis by (simp add: ilog2_def)
qed

lemma bitlen_small: "bitlen 1 = 1" "bitlen 2 = 2" "bitlen 3 = 2" "bitlen 4 = 3"
  by code_simp+

lemma bitlen_huge:
  "bitlen 1000000000000000039769249677312000395398304974095154031886336 = 200"
  "bitlen 1000000000000000127793096885319003999249391192200302120927232 = 200"
  by code_simp+

lemmas float_defs =
  np_float32_def f64_mul_def round_ieee_def ilog2_def round_even_def Let_def
  power_int_minus_divide bitlen_small

text \<open>The coercion leaves no floating-point dtype but float32, and changes nothing
  where there is no other.\<close>

lemma dtypes_f64_to_f32: "dtypes (f64_to_f32 f32 v) = map coerce_float (dtypes v)"
  by (induction v)
    (auto simp: coerce_float_def is_floating_def map_concat intro!: arg_cong[where f=concat])

lemma all_float32_f64_to_f32: "all_float32 (f64_to_f32 f32 v)"
  by (auto simp: all_float32_def dtypes_f64_to_f32 list_all_iff coerce_float_def)

lemma f64_to_f32_id: "all_float32 v \<Longrightarrow> f64_to_f32 f32 v = v"
proof (induction v)
  case (NdArray d a)
  then show ?case by (auto simp: all_float32_def)
next
  case (GDict kvs)
  have "map (map_prod id (f64_to_f32 f32)) kvs = map id kvs"
  proof (rule map_cong[OF refl])
    fix kv assume kv: "kv \<in> set kvs"
    obtain k v where [simp]: "kv = (k, v)" by (cases kv)
    from kv GDict.prems have "all_float32 v"
      by (force simp: all_float32_def list_all_iff)
    with GDict.IH[of kv v] kv show "map_prod id (f64_to_f32 f32) kv = id kv" by simp
  qed
  then show ?case by simp
next
  case (GList vs)
  have "map (f64_to_f32 f32) vs = map id vs"
  proof (rule map_cong[OF refl])
    fix v assume v: "v \<in> set vs"
    with GList.prems have "all_float32 v"
      by (force simp: all_float32_def list_all_iff)
    with GList.IH[OF v] show "f64_to_f32 f32 v = id v" by simp
  qed
  then show ?case by simp
qed simp_all

lemma map_of_map_prod: "map_of (map (map_prod id f) kvs) k = map_option f (map_of kvs k)"
  by (induction kvs) auto

lemma update_absent: "k \<notin> set (map fst al) \<Longrightarrow> AList.update k v al = al @ [(k, v)]"
  by (induction al) auto

lemma dtypes_set_truncated: "dtypes (set_truncated info) = dtypes info"
  by (cases info) (simp_all add: set_truncated_def update_absent)

lemma forward_eq_Inr:
  "ExtendedEnv_forward f32 w a s = Inr ((obs, r, d, info), s') \<longleftrightarrow>
   (\<exists>obs0 r0 d0 info0. env_step (env w) a s = Inr ((obs0, r0, d0, info0), s') \<and>
      obs = f64_to_f32 f32 obs0 \<and> r = np_float32 (f64_mul r0 (reward_scale w)) \<and> d = d0 \<and>
      info = f64_to_f32 f32 (set_truncated info0))"
  by (auto simp: ExtendedEnv_forward_def bnd_eq_Inr)

text \<open>Arrays built from lists, and the number of their points.\<close>

lemma scalars_map_Sc [simp]: "scalars (map Sc xs) = Some xs"
  by (induction xs) simp_all

lemma those_row_scalars_vec [simp]: "those (map (row_scalars \<circ> vec) rows) = Some rows"
  by (induction rows) (simp_all add: vec_def)

lemma as_matrix_matrix [simp]: "as_matrix (Arr (matrix rows)) = Inr rows"
  by (simp add: as_matrix_def matrix_def)

lemma those_length: "those xs = Some ys \<Longrightarrow> length ys = length xs"
  by (induction xs arbitrary: ys) (auto split: option.splits)

lemma as_matrix_rows: "as_matrix v = Inr m \<Longrightarrow> n_rows v = Some (length m)"
  by (auto simp: as_matrix_def n_rows_def dest: those_length
      split: obs.splits nd.splits option.splits)

lemma n_rows_matrix [simp]: "n_rows (Arr (matrix m)) = Some (length m)"
  by (simp add: n_rows_def matrix_def)

lemma divide_by_rows: "divide_by v c = Inr v' \<Longrightarrow> n_rows v' = n_rows v"
  by (cases v) (auto simp: divide_by_def n_rows_def split: nd.splits)

lemma field_rows_update:
  "field_rows (AList.update k' v al) k = (if k = k' then n_rows v else field_rows al k)"
  by (simp add: field_rows_def update_conv')

lemma dict_get_rows: "dict_get kvs k = Inr v \<Longrightarrow> field_rows kvs k = n_rows v"
  by (auto simp: dict_get_def field_rows_def split: option.splits)

lemma concatenate_rows_rows:
  "concatenate_rows v ys = Inr v' \<Longrightarrow> \<exists>n. n_rows v = Some n \<and> n_rows v' = Some (n + length ys)"
  by (auto simp: concatenate_rows_def bnd_eq_Inr as_matrix_rows split: if_splits)

lemma green_length: "green pts = Inr g \<Longrightarrow> length g = length pts"
  by (auto simp: green_def split: if_splits)

lemma as_dict_eq_Inr: "as_dict v = Inr kvs \<longleftrightarrow> v = Dict kvs"
  by (cases v) (auto simp: as_dict_def)

text \<open>The goal points add \<open>n\<close> points to \<^verbatim>\<open>xyz\<close> and to \<^verbatim>\<open>rgb\<close>.\<close>

lemma add_goal_points_rows:
  assumes "pose_count D" and "add_goal_points D n to_origin goal_pos ret = Inr ret'"
    and "k = ''xyz'' \<or> k = ''rgb''"
  shows "field_rows ret' k = map_option (\<lambda>m. m + (if n > 0 then nat n else 0)) (field_rows ret k)"
proof (cases "n > 0")
  case False
  with assms(2) have "ret' = ret" by (simp add: add_goal_points_def)
  with False show ?thesis by (simp add: option.map_ident)
next
  case True
  with assms(2) obtain g gv gv3 gx gr xyz xyz' rgb rgb' where
    "goal_pos = Some g"
    and ap: "apply_pose_to_points D (map (\<lambda>r. map2 (+) r gv3) (goal_points D (nat n))) to_origin
               = Inr gx"
    and gr: "green gx = Inr gr"
    and x: "dict_get ret ''xyz'' = Inr xyz" and cx: "concatenate_rows xyz gx = Inr xyz'"
    and r: "dict_get ret ''rgb'' = Inr rgb" and cr: "concatenate_rows rgb gr = Inr rgb'"
    and ret': "ret' = AList.update ''rgb'' rgb' (AList.update ''xyz'' xyz' ret)"
    by (auto simp: add_goal_points_def bnd_eq_Inr split: option.splits)
  from assms(1) ap have lg: "length gx = nat n"
    by (auto simp: pose_count_def goal_points_def)
  with gr have lr: "length gr = nat n" by (simp add: green_length)
  from concatenate_rows_rows[OF cx] concatenate_rows_rows[OF cr] lg lr
    dict_get_rows[OF x] dict_get_rows[OF r] assms(3) True
  show ?thesis by (auto simp: ret' field_rows_update)
qed

text \<open>The point counts after the masking, in both cases of the test on the name of the
  wrapped environment.\<close>

lemma pcd_process_rows:
  assumes pc: "pose_count D" and dc: "downsample_count D"
    and run: "pcd_process D w obsv to_origin ret0 = Inr r"
    and k: "k = ''xyz'' \<or> k = ''rgb''"
  shows "\<exists>kvs. r = Dict kvs \<and>
           field_rows kvs k =
             (if \<not> str_contains (env_str (wrapped w)) ''PointCloudPreprocessObsWrapper''
              then Some (nat (n_points w) + n_goal w)
              else map_option (\<lambda>m. m + n_goal w) (field_rows ret0 k))"
proof -
  let ?skip = "str_contains (env_str (wrapped w)) ''PointCloudPreprocessObsWrapper''"
  from run obtain rgb rgb' ret1 xyz pts pts' goal_pos ret2 frs fgp tf st where
    rgb: "dict_get ret0 ''rgb'' = Inr rgb" and rgb': "divide_by rgb 255 = Inr rgb'"
    and ret1: "(if \<not> ?skip
          then pcd_uniform_downsample D (AList.update ''rgb'' rgb' ret0) (1 / 10000) (n_points w)
          else Inr (AList.update ''rgb'' rgb' ret0)) = Inr ret1"
    and xyz: "dict_get ret1 ''xyz'' = Inr xyz" and pts: "as_matrix xyz = Inr pts"
    and pts': "apply_pose_to_points D pts to_origin = Inr pts'"
    and ret2: "add_goal_points D (n_goal_points w) to_origin goal_pos
            (AList.update ''xyz'' (Arr (matrix pts')) ret1) = Inr ret2"
    and r: "r = Dict (AList.update ''state'' st
              (AList.update ''to_frames'' tf
                (if 0 < length fgp
                 then AList.update ''frame_goal_related_poses'' (Arr (matrix fgp))
                        (AList.update ''frame_related_states'' (Arr (matrix frs)) ret2)
                 else AList.update ''frame_related_states'' (Arr (matrix frs)) ret2)))"
    by (auto simp: pcd_process_def bnd_eq_Inr Let_def simp del: length_greater_0_conv
        split: prod.splits)
  from pc pts' have len: "length pts' = length pts" by (auto simp: pose_count_def)
  have r1: "field_rows (AList.update ''xyz'' (Arr (matrix pts')) ret1) k = field_rows ret1 k"
    using dict_get_rows[OF xyz] as_matrix_rows[OF pts] len by (simp add: field_rows_update)
  have r2: "field_rows ret2 k = map_option (\<lambda>m. m + n_goal w) (field_rows ret1 k)"
    using add_goal_points_rows[OF pc ret2 k] r1 by (simp add: n_goal_def)
  have fin: "\<exists>kvs. r = Dict kvs \<and> field_rows kvs k = field_rows ret2 k"
    using k by (auto simp: r field_rows_update)
  show ?thesis
  proof (cases ?skip)
    case True
    with ret1 have "ret1 = AList.update ''rgb'' rgb' ret0" by simp
    then have "field_rows ret1 k = field_rows ret0 k"
      using k dict_get_rows[OF rgb] divide_by_rows[OF rgb'] by (auto simp: field_rows_update)
    with fin r2 True show ?thesis by auto
  next
    case False
    with ret1 have ds: "pcd_uniform_downsample D (AList.update ''rgb'' rgb' ret0) (1 / 10000)
                          (n_points w) = Inr ret1"
      by simp
    have "field_rows ret1 k = Some (nat (n_points w))"
    proof (cases "k = ''xyz''")
      case True
      from xyz have "map_of ret1 ''xyz'' = Some xyz"
        by (auto simp: dict_get_def split: option.splits)
      with dc ds have "n_rows xyz = Some (nat (n_points w))"
        unfolding downsample_count_def by blast
      with dict_get_rows[OF xyz] True show ?thesis by simp
    next
      case False
      with k have kr: "k = ''rgb''" by simp
      have "''rgb'' \<in> fst ` set (AList.update ''rgb'' rgb' ret0)"
        by (simp add: update_conv' flip: dom_map_of_conv_image_fst)
      with dc ds have "''rgb'' \<in> fst ` set ret1"
        unfolding downsample_count_def by blast
      then obtain v where v: "map_of ret1 ''rgb'' = Some v"
        by (metis domD dom_map_of_conv_image_fst)
      with dc ds have "n_rows v = Some (nat (n_points w))"
        unfolding downsample_count_def by blast
      with v kr show ?thesis by (simp add: field_rows_def)
    qed
    with fin r2 False show ?thesis by auto
  qed
qed

lemma observation_pointcloud_Inr:
  assumes "obs_mode (wrapped w) = ''pointcloud''" and "observation D w obsv = Inr r"
  shows "\<exists>to_origin pc pointcloud.
           frame_to_origin D (obs_frame w) obsv = Inr to_origin \<and>
           getitem obsv ''pointcloud'' = Inr (Dict pc) \<and>
           mask_pointcloud pc = Inr pointcloud \<and>
           pcd_process D w obsv to_origin (select_modes pointcloud) = Inr r"
  using assms
  by (auto simp: observation_def observation_pointcloud_def bnd_eq_Inr as_dict_eq_Inr)

text \<open>The masking, field by field.\<close>

lemma boolean_index_eq_Inr:
  "boolean_index v m = Inr v' \<longleftrightarrow>
   (\<exists>fs. v = Arr (Ax fs) \<and> length fs = length m \<and>
         v' = Arr (Ax (map fst (filter snd (zip fs m)))))"
  by (auto simp: boolean_index_def split: obs.splits nd.splits)

lemma mask_all_fields:
  "mask_all m kvs = Inr kvs' \<Longrightarrow>
   map fst kvs' = map fst kvs \<and>
   (\<forall>k v. map_of kvs k = Some v \<longrightarrow>
      (\<exists>fs. v = Arr (Ax fs) \<and> length fs = length m \<and>
            map_of kvs' k = Some (Arr (Ax (map fst (filter snd (zip fs m)))))))"
proof (induction kvs arbitrary: kvs')
  case Nil
  then show ?case by simp
next
  case (Cons kv kvs)
  obtain k0 v0 where kv: "kv = (k0, v0)" by (cases kv)
  from Cons.prems obtain v0' rest where
    b: "boolean_index v0 m = Inr v0'" and r: "mask_all m kvs = Inr rest"
    and k: "kvs' = (k0, v0') # rest"
    by (auto simp: kv bnd_eq_Inr)
  from Cons.IH[OF r] b show ?case
    by (auto simp: kv k boolean_index_eq_Inr)
qed

lemma filter_zip_map:
  "length fs = length rows \<Longrightarrow>
   map fst (filter snd (zip fs (map P rows))) = map fst (filter (\<lambda>(f, p). P p) (zip fs rows))"
  by (induction fs rows rule: list_induct2) auto

lemma filter_rows:
  "map fst (filter snd (zip (map f rows) (map P rows))) = map f (filter P rows)"
  by (induction rows) auto

lemma map_of_select_modes:
  "map_of (select_modes pc) k =
     (if k \<in> {''xyz'', ''rgb'', ''robot_seg''} then map_of pc k else None)"
  by (auto simp: select_modes_def List.map_filter_simps split: option.splits)

lemma mask_pointcloud_xyzw:
  assumes "map_of pc ''xyzw'' = Some (Arr (matrix rows))"
    and "mask_pointcloud pc = Inr pointcloud"
  shows "map_of pointcloud ''xyz'' =
           Some (Arr (matrix (map butlast (filter (\<lambda>p. last p > 0.5) rows))))"
    and "k \<noteq> ''xyzw'' \<Longrightarrow> k \<noteq> ''xyz'' \<Longrightarrow> map_of pc k = Some v \<Longrightarrow>
         \<exists>fs. v = Arr (Ax fs) \<and> length fs = length rows \<and>
              map_of pointcloud k =
                Some (Arr (Ax (map fst (filter (\<lambda>(f, p). last p > 0.5) (zip fs rows)))))"
proof -
  let ?m = "map (\<lambda>r. last r > 0.5) rows"
  from assms obtain masked xyz' where
    ma: "mask_all ?m (AList.delete ''xyzw'' pc) = Inr masked"
    and bi: "boolean_index (Arr (matrix (map butlast rows))) ?m = Inr xyz'"
    and res: "pointcloud = AList.update ''xyz'' xyz' masked"
    by (auto simp: mask_pointcloud_def Let_def bnd_eq_Inr split: if_splits)
  from bi have "xyz' = Arr (matrix (map butlast (filter (\<lambda>p. last p > 0.5) rows)))"
    by (simp add: boolean_index_def matrix_def filter_rows[of "vec \<circ> butlast", simplified]
        split: if_splits)
  then show "map_of pointcloud ''xyz'' =
           Some (Arr (matrix (map butlast (filter (\<lambda>p. last p > 0.5) rows))))"
    by (simp add: res update_conv')
  assume k: "k \<noteq> ''xyzw''" "k \<noteq> ''xyz''" and v: "map_of pc k = Some v"
  then have "map_of (AList.delete ''xyzw'' pc) k = Some v"
    by (simp add: delete_conv')
  with mask_all_fields[OF ma] obtain fs where
    fs: "v = Arr (Ax fs)" "length fs = length ?m"
    "map_of masked k = Some (Arr (Ax (map fst (filter snd (zip fs ?m)))))"
    by blast
  then show "\<exists>fs. v = Arr (Ax fs) \<and> length fs = length rows \<and>
              map_of pointcloud k =
                Some (Arr (Ax (map fst (filter (\<lambda>(f, p). last p > 0.5) (zip fs rows)))))"
    using k by (simp add: res update_conv' filter_zip_map)
qed

text \<open>The instance of the parameters keeps the point counts.\<close>

lemma first_points_fields:
  "first_points ret eps num = Inr ret' \<Longrightarrow>
   map fst ret' = map fst ret \<and> (\<forall>k v. map_of ret' k = Some v \<longrightarrow> n_rows v = Some (nat num))"
proof (induction ret arbitrary: ret')
  case Nil
  then show ?case by simp
next
  case (Cons kv ret)
  obtain k0 v0 where kv: "kv = (k0, v0)" by (cases kv)
  from Cons.prems obtain x xs rest where v0: "v0 = Arr (Ax (x # xs))"
    and r: "first_points ret eps num = Inr rest"
    and k: "ret' = (k0, Arr (Ax (take (nat num)
                ((x # xs) @ replicate (nat num - length (x # xs)) x)))) # rest"
    by (auto simp: kv bnd_eq_Inr split: obs.splits nd.splits list.splits)
  from Cons.IH[OF r] show ?case
    by (auto simp: kv k n_rows_def)
qed

lemma rigid_downsample_count: "downsample_count rigid_helpers"
  unfolding downsample_count_def
proof (intro allI impI ballI)
  fix ret eps num ret' k
  assume "pcd_uniform_downsample rigid_helpers ret eps num = Inr ret'"
  then have "first_points ret eps num = Inr ret'" by (simp add: rigid_helpers_def)
  from first_points_fields[OF this]
  show "(k \<in> fst ` set ret \<longrightarrow> k \<in> fst ` set ret') \<and>
        (\<forall>v. map_of ret' k = Some v \<longrightarrow> n_rows v = Some (nat num))"
    by (metis list.set_map)
qed

lemma rigid_pose_count: "pose_count rigid_helpers"
  by (auto simp: pose_count_def rigid_helpers_def split: if_splits)

text \<open>The runs of the model on the concrete cloud.\<close>

lemmas model_defs =
  observation_def observation_pointcloud_def pcd_process_def frame_to_origin_def
  mask_pointcloud_def select_modes_def List.map_filter_simps getitem_def as_dict_def dict_get_def
  keys_def slice_to_def make_pose_def as_vec_def as_matrix_def divide_by_def boolean_index_def
  concatenate_rows_def stack_def rot_apply_def tcp_pose_of_def goal_of_def tcp_to_goal_def
  goal_points_def green_def add_goal_points_def point_in_frame_def opt_list_def
  frame_related_states_def pose_row_def frame_goal_related_poses_def to_frames_def
  skipped_keys_def agent_state_def np_sub_def broadcast2_def
  vec_def matrix_def Let_def

lemmas instance_defs =
  rigid_helpers_def rigid_inv_def rigid_mul_def rigid_apply_def rigid_matrix_def
  quat_rotate_def quat_mul_def quat_conj_def cloud_obs_def cloud_env_def cloud_wrapper_def
  cloud_pc_def cloud_rows_def frame_keys_def

lemma plain_run: "observation rigid_helpers plain_wrapper cloud_obs = Inr plain_result"
  by (simp add: model_defs instance_defs plain_wrapper_def plain_result_def upt_0_3 upt_0_2)

lemma preprocessed_run:
  "observation rigid_helpers preprocessed_wrapper cloud_obs = Inr preprocessed_result"
  by (simp add: model_defs instance_defs preprocessed_wrapper_def preprocessed_result_def
      upt_0_3 upt_0_2)

lemma plain_mode: "obs_mode (wrapped plain_wrapper) = ''pointcloud''"
  by (simp add: plain_wrapper_def cloud_wrapper_def cloud_env_def)

lemma cloud_pointcloud: "getitem cloud_obs ''pointcloud'' = Inr (Dict cloud_pc)"
  by (simp add: cloud_obs_def getitem_def as_dict_def dict_get_def)

lemma cloud_xyzw: "map_of cloud_pc ''xyzw'' = Some (Arr (matrix cloud_rows))"
  by (simp add: cloud_pc_def)

text \<open>A step of \<open>demo_wrapper\<close>.\<close>

lemma demo_step:
  "ExtendedEnv_step id demo_wrapper (PyIntA 0) 5 =
     Inr ((GDict [(''state'', NdArray Float32 (Ax [Sc 1, Sc 1])),
                  (''depth'', NdArray Float32 (Ax [Sc 1]))],
           Finite (- 3), False,
           GDict [(''success'', PyBool False), (''dist'', NdArray Float32 (Sc 1)),
                  (''TimeLimit.truncated'', PyBool False)]), 6)"
  by (simp add: ExtendedEnv_step_def ExtendedEnv_forward_def process_action_def
      int_of_action_def set_truncated_def demo_wrapper_def demo_env_def is_floating_def
      float_defs)

subsection \<open>The claims\<close>

text \<open>
  C1, as stated, fails: with a wrapped environment whose name contains
  \<^verbatim>\<open>PointCloudPreprocessObsWrapper\<close> the wrapper does not downsample, and a cloud of
  three valid points comes back with three points although \<^verbatim>\<open>n_points\<close> is 2 and no
  goal point is injected.
\<close>

theorem observation_point_count_counterexample:
  "obs_mode (wrapped preprocessed_wrapper) = ''pointcloud'' \<and>
   result_rows (observation rigid_helpers preprocessed_wrapper cloud_obs) ''xyz'' = Some 3 \<and>
   result_rows (observation rigid_helpers preprocessed_wrapper cloud_obs) ''rgb'' = Some 3 \<and>
   nat (n_points preprocessed_wrapper) + n_goal preprocessed_wrapper = 2"
proof -
  have "result_rows (Inr preprocessed_result) ''xyz'' = Some 3"
    and "result_rows (Inr preprocessed_result) ''rgb'' = Some 3"
    by (simp_all add: result_rows_def field_rows_def preprocessed_result_def)
  moreover have "obs_mode (wrapped preprocessed_wrapper) = ''pointcloud''"
    and "nat (n_points preprocessed_wrapper) + n_goal preprocessed_wrapper = 2"
    by (simp_all add: n_goal_def preprocessed_wrapper_def cloud_wrapper_def cloud_env_def)
  ultimately show ?thesis
    by (simp only: preprocessed_run simp_thms)
qed

text \<open>
  C1, amended: in point-cloud mode, when \<^verbatim>\<open>observation\<close> returns, and the name of the
  wrapped environment does not contain \<^verbatim>\<open>PointCloudPreprocessObsWrapper\<close>, the arrays
  \<^verbatim>\<open>xyz\<close> and \<^verbatim>\<open>rgb\<close> of the result have \<^verbatim>\<open>n_points\<close> points plus the injected
  goal points (\<^verbatim>\<open>n_goal_points\<close> if that is positive, none otherwise), provided the
  downsampling leaves \<^verbatim>\<open>n_points\<close> points and the change of frame keeps the number of
  points. When the name does contain it, nothing is downsampled, and the count is that of
  the points left by the masking plus the goal points.
\<close>

theorem observation_point_count:
  assumes "pose_count D" and "downsample_count D"
    and "obs_mode (wrapped w) = ''pointcloud''"
    and "observation D w obsv = Inr r"
  shows "\<exists>pc pointcloud.
           getitem obsv ''pointcloud'' = Inr (Dict pc) \<and> mask_pointcloud pc = Inr pointcloud \<and>
           (\<forall>k \<in> {''xyz'', ''rgb''}.
              result_rows (Inr r) k =
                (if \<not> str_contains (env_str (wrapped w)) ''PointCloudPreprocessObsWrapper''
                 then Some (nat (n_points w) + n_goal w)
                 else map_option (\<lambda>m. m + n_goal w) (field_rows (select_modes pointcloud) k)))"
proof -
  from observation_pointcloud_Inr[OF assms(3,4)] obtain to_origin pc pointcloud where
    a: "getitem obsv ''pointcloud'' = Inr (Dict pc)" "mask_pointcloud pc = Inr pointcloud"
    and p: "pcd_process D w obsv to_origin (select_modes pointcloud) = Inr r"
    by blast
  have "result_rows (Inr r) k =
          (if \<not> str_contains (env_str (wrapped w)) ''PointCloudPreprocessObsWrapper''
           then Some (nat (n_points w) + n_goal w)
           else map_option (\<lambda>m. m + n_goal w) (field_rows (select_modes pointcloud) k))"
    if "k = ''xyz'' \<or> k = ''rgb''" for k
    using pcd_process_rows[OF assms(1,2) p that] by (auto simp: result_rows_def)
  with a show ?thesis by blast
qed

theorem observation_point_count_witness:
  "pose_count rigid_helpers \<and> downsample_count rigid_helpers \<and>
   obs_mode (wrapped plain_wrapper) = ''pointcloud'' \<and>
   observation rigid_helpers plain_wrapper cloud_obs = Inr plain_result \<and>
   n_points plain_wrapper = 2 \<and> n_goal_points plain_wrapper = 2 \<and>
   result_rows (Inr plain_result) ''xyz'' = Some (2 + 2) \<and>
   result_rows (Inr plain_result) ''rgb'' = Some (2 + 2)"
proof -
  have n: "n_points plain_wrapper = 2" "n_goal_points plain_wrapper = 2"
    and s: "\<not> str_contains (env_str (wrapped plain_wrapper)) ''PointCloudPreprocessObsWrapper''"
    by (simp_all add: plain_wrapper_def cloud_wrapper_def cloud_env_def)
  from observation_point_count[OF rigid_pose_count rigid_downsample_count plain_mode plain_run]
  have "result_rows (Inr plain_result) ''xyz'' = Some (2 + 2)"
    and "result_rows (Inr plain_result) ''rgb'' = Some (2 + 2)"
    using n s by (auto simp: n_goal_def)
  with rigid_pose_count rigid_downsample_count plain_mode plain_run n
  show ?thesis by (intro conjI)
qed

text \<open>
  C2: in the observation returned by \<^verbatim>\<open>ExtendedEnv.reset\<close>, and in the observation
  and the info returned by \<^verbatim>\<open>ExtendedEnv.step\<close>, every floating-point field is of
  dtype float32, whatever dtype the wrapped environment reported: the dtypes of the
  result are those of the wrapped environment with every floating-point dtype replaced by
  float32.
\<close>

theorem reset_step_all_float32:
  "(ExtendedEnv_reset f32 w s = Inr (obs, s') \<longrightarrow>
      all_float32 obs \<and>
      (\<exists>obs0. env_reset (env w) s = Inr (obs0, s') \<and>
              dtypes obs = map coerce_float (dtypes obs0))) \<and>
   (ExtendedEnv_step f32 w a t = Inr ((next_obs, r, d, info), t') \<longrightarrow>
      all_float32 next_obs \<and> all_float32 info \<and>
      (\<exists>a' obs0 r0 d0 info0. process_action w a = Inr a' \<and>
          env_step (env w) a' t = Inr ((obs0, r0, d0, info0), t') \<and>
          dtypes next_obs = map coerce_float (dtypes obs0) \<and>
          dtypes info = map coerce_float (dtypes info0)))"
proof (intro conjI impI)
  assume "ExtendedEnv_reset f32 w s = Inr (obs, s')"
  then obtain obs0 where e: "env_reset (env w) s = Inr (obs0, s')"
    and o: "obs = f64_to_f32 f32 obs0"
    by (auto simp: ExtendedEnv_reset_def bnd_eq_Inr)
  show "\<exists>obs0. env_reset (env w) s = Inr (obs0, s') \<and>
          dtypes obs = map coerce_float (dtypes obs0)"
    using e o by (auto simp: dtypes_f64_to_f32)
  show "all_float32 obs"
    unfolding o by (rule all_float32_f64_to_f32)
next
  assume "ExtendedEnv_step f32 w a t = Inr ((next_obs, r, d, info), t')"
  then obtain a' obs0 r0 d0 info0 where a': "process_action w a = Inr a'"
    and st: "env_step (env w) a' t = Inr ((obs0, r0, d0, info0), t')"
    and o: "next_obs = f64_to_f32 f32 obs0"
    and i: "info = f64_to_f32 f32 (set_truncated info0)"
    by (auto simp: ExtendedEnv_step_def bnd_eq_Inr forward_eq_Inr)
  show "\<exists>a' obs0 r0 d0 info0. process_action w a = Inr a' \<and>
          env_step (env w) a' t = Inr ((obs0, r0, d0, info0), t') \<and>
          dtypes next_obs = map coerce_float (dtypes obs0) \<and>
          dtypes info = map coerce_float (dtypes info0)"
    using a' st o i by (auto simp: dtypes_f64_to_f32 dtypes_set_truncated)
  show "all_float32 next_obs"
    unfolding o by (rule all_float32_f64_to_f32)
  show "all_float32 info"
    unfolding i by (rule all_float32_f64_to_f32)
qed

theorem reset_step_all_float32_witness:
  "ExtendedEnv_reset id demo_wrapper 5 =
     Inr (GDict [(''state'', NdArray Float32 (Ax [Sc 0, Sc 1])),
                 (''depth'', NdArray Float32 (Ax [Sc 1]))], 0) \<and>
   all_float32 (GDict [(''state'', NdArray Float32 (Ax [Sc 0, Sc 1])),
                       (''depth'', NdArray Float32 (Ax [Sc 1]))]) \<and>
   ExtendedEnv_step id demo_wrapper (PyIntA 0) 5 =
     Inr ((GDict [(''state'', NdArray Float32 (Ax [Sc 1, Sc 1])),
                  (''depth'', NdArray Float32 (Ax [Sc 1]))],
           Finite (- 3), False,
           GDict [(''success'', PyBool False), (''dist'', NdArray Float32 (Sc 1)),
                  (''TimeLimit.truncated'', PyBool False)]), 6) \<and>
   all_float32 (GDict [(''state'', NdArray Float32 (Ax [Sc 1, Sc 1])),
                       (''depth'', NdArray Float32 (Ax [Sc 1]))]) \<and>
   all_float32 (GDict [(''success'', PyBool False), (''dist'', NdArray Float32 (Sc 1)),
                       (''TimeLimit.truncated'', PyBool False)])"
proof -
  have h1: "ExtendedEnv_reset id demo_wrapper 5 =
     Inr (GDict [(''state'', NdArray Float32 (Ax [Sc 0, Sc 1])),
                 (''depth'', NdArray Float32 (Ax [Sc 1]))], 0)"
    by (simp add: ExtendedEnv_reset_def demo_wrapper_def demo_env_def is_floating_def)
  show ?thesis
    using h1 demo_step
      reset_step_all_float32[of id demo_wrapper 5
        "GDict [(''state'', NdArray Float32 (Ax [Sc 0, Sc 1])),
                (''depth'', NdArray Float32 (Ax [Sc 1]))]" 0 "PyIntA 0" 5
        "GDict [(''state'', NdArray Float32 (Ax [Sc 1, Sc 1])),
                (''depth'', NdArray Float32 (Ax [Sc 1]))]" "Finite (- 3)" False
        "GDict [(''success'', PyBool False), (''dist'', NdArray Float32 (Sc 1)),
                (''TimeLimit.truncated'', PyBool False)]" 6]
    by blast
qed

text \<open>
  C3: constructing \<^verbatim>\<open>ExtendedEnv\<close> with a reward scale that is not positive fails the
  assertion; with a positive reward scale the construction succeeds, and gives the wrapper
  with the scale negated under \<^verbatim>\<open>use_cost\<close>.
\<close>

theorem ExtendedEnv_init_reward_scale:
  "(rs \<le> 0 \<longrightarrow> ExtendedEnv_init e rs use_cost = Inl AssertionError) \<and>
   (0 < rs \<longrightarrow>
      ExtendedEnv_init e rs use_cost =
        Inr \<lparr>env = e, is_discrete = action_space_Discrete e,
             is_cost = (if use_cost then - 1 else 1),
             reward_scale = (if use_cost then - rs else rs)\<rparr>)"
  by (simp add: ExtendedEnv_init_def Let_def)

theorem ExtendedEnv_init_reward_scale_witness:
  "(- 1 :: real) \<le> 0 \<and> ExtendedEnv_init demo_env (- 1) False = Inl AssertionError \<and>
   (0 :: real) \<le> 0 \<and> ExtendedEnv_init demo_env 0 True = Inl AssertionError \<and>
   (0 :: real) < 2 \<and> ExtendedEnv_init demo_env 2 True = Inr demo_wrapper"
  using ExtendedEnv_init_reward_scale[of "- 1" demo_env False]
    ExtendedEnv_init_reward_scale[of 0 demo_env True]
    ExtendedEnv_init_reward_scale[of 2 demo_env True]
  by (simp add: demo_wrapper_def demo_env_def)

text \<open>
  C4: when the action space of the wrapped environment is discrete, an array action with
  the single entry \<open>x\<close> is turned into the Python integer \<^verbatim>\<open>int(x)\<close> (into \<open>k\<close> itself
  when the entry is the whole number \<open>k\<close>), and \<^verbatim>\<open>step\<close> then goes on with that integer
  as the action; an array action of more than one entry fails the assertion.
\<close>

theorem process_action_discrete_array:
  assumes "ExtendedEnv_init e rs use_cost = Inr w" and "action_space_Discrete e"
  shows "(nd_flat b = [x] \<longrightarrow>
            process_action w (NdA b) = Inr (PyIntA (py_int x)) \<and>
            ExtendedEnv_step f32 w (NdA b) s = ExtendedEnv_forward f32 w (PyIntA (py_int x)) s) \<and>
         (nd_flat b = [of_int k] \<longrightarrow> process_action w (NdA b) = Inr (PyIntA k)) \<and>
         (1 < nd_size b \<longrightarrow>
            process_action w (NdA b) = Inl AssertionError \<and>
            ExtendedEnv_step f32 w (NdA b) s = Inl AssertionError)"
proof -
  from assms have "is_discrete w"
    by (auto simp: ExtendedEnv_init_def Let_def split: if_splits)
  then show ?thesis
    by (simp add: process_action_def ExtendedEnv_step_def action_size_def first_entry_def
        nd_size_def py_int_of_int)
qed

theorem process_action_discrete_array_witness:
  "ExtendedEnv_init demo_env 2 True = Inr demo_wrapper \<and> action_space_Discrete demo_env \<and>
   nd_flat (Ax [Ax [Sc 3]]) = [of_int 3] \<and>
   process_action demo_wrapper (NdA (Ax [Ax [Sc 3]])) = Inr (PyIntA 3) \<and>
   1 < nd_size (Ax [Sc 0, Sc 1]) \<and>
   ExtendedEnv_step id demo_wrapper (NdA (Ax [Sc 0, Sc 1])) 0 = Inl AssertionError"
proof -
  have h1: "ExtendedEnv_init demo_env 2 True = Inr demo_wrapper"
    by (simp add: ExtendedEnv_init_def demo_wrapper_def demo_env_def)
  have h2: "action_space_Discrete demo_env"
    by (simp add: demo_env_def)
  show ?thesis
    using h1 h2
      process_action_discrete_array[OF h1 h2, of "Ax [Ax [Sc 3]]" 3 id 0 3]
      process_action_discrete_array[OF h1 h2, of "Ax [Sc 0, Sc 1]" 0 id 0 0]
    by (simp add: nd_size_def py_int_def)
qed

text \<open>
  C5, as stated, fails: the reward that \<^verbatim>\<open>ExtendedEnv.step\<close> returns is a float32
  number. With the reward \<^verbatim>\<open>0.1\<close> of the wrapped environment and the reward scale 2
  it is 13421773 / 67108864, which is not the product.
\<close>

theorem step_reward_rounded_counterexample:
  "ExtendedEnv_init (reward_env tenth) 2 False = Inr (reward_wrapper tenth 2) \<and>
   env_step (reward_env tenth) (PyIntA 0) 0 =
     Inr ((NdArray Float32 (Ax [Sc 0]), tenth, False, GDict []), 1) \<and>
   ExtendedEnv_step id (reward_wrapper tenth 2) (PyIntA 0) 0 =
     Inr ((NdArray Float32 (Ax [Sc 0]), Finite (13421773 / 67108864), False,
           GDict [(''TimeLimit.truncated'', PyBool False)]), 1) \<and>
   Finite (13421773 / 67108864) \<noteq> Finite (tenth * 2)"
  by (simp add: ExtendedEnv_init_def ExtendedEnv_step_def ExtendedEnv_forward_def
      process_action_def set_truncated_def reward_wrapper_def reward_env_def tenth_def
      float_defs)

text \<open>
  C5, amended: whenever \<^verbatim>\<open>ExtendedEnv.step\<close> returns, its reward is the reward of the
  wrapped environment multiplied by \<^verbatim>\<open>reward_scale\<close>, with the sign flipped when the
  wrapper was built with \<^verbatim>\<open>use_cost\<close>, as float64 arithmetic gives the product and
  \<^verbatim>\<open>np.float32\<close> rounds it: the nearest float32 number, or an infinity when the
  product is beyond the float32 range.
\<close>

theorem step_reward_scaled:
  assumes "ExtendedEnv_init e rs use_cost = Inr w"
    and "ExtendedEnv_step f32 w a s = Inr ((obs, r, d, info), s')"
  shows "\<exists>a' obs0 r0 d0 info0.
           process_action w a = Inr a' \<and>
           env_step e a' s = Inr ((obs0, r0, d0, info0), s') \<and>
           r = np_float32 (f64_mul r0 (if use_cost then - rs else rs)) \<and>
           r = (if use_cost then fl_neg (np_float32 (f64_mul r0 rs))
                else np_float32 (f64_mul r0 rs))"
proof -
  from assms(1) have w: "env w = e" "reward_scale w = (if use_cost then - rs else rs)"
    by (auto simp: ExtendedEnv_init_def Let_def split: if_splits)
  from assms(2) obtain a' where a': "process_action w a = Inr a'"
    and fw: "ExtendedEnv_forward f32 w a' s = Inr ((obs, r, d, info), s')"
    by (auto simp: ExtendedEnv_step_def bnd_eq_Inr)
  from fw obtain obs0 r0 d0 info0 where
    st: "env_step (env w) a' s = Inr ((obs0, r0, d0, info0), s')"
    and r: "r = np_float32 (f64_mul r0 (reward_scale w))"
    by (auto simp: forward_eq_Inr)
  show ?thesis using a' st r w by (auto simp: np_float32_f64_mul_minus)
qed

theorem step_reward_scaled_witness:
  "ExtendedEnv_init demo_env 2 True = Inr demo_wrapper \<and>
   ExtendedEnv_step id demo_wrapper (PyIntA 0) 5 =
     Inr ((GDict [(''state'', NdArray Float32 (Ax [Sc 1, Sc 1])),
                  (''depth'', NdArray Float32 (Ax [Sc 1]))],
           Finite (- 3), False,
           GDict [(''success'', PyBool False), (''dist'', NdArray Float32 (Sc 1)),
                  (''TimeLimit.truncated'', PyBool False)]), 6) \<and>
   env_step demo_env (PyIntA 0) 5 =
     Inr ((GDict [(''state'', NdArray Float64 (Ax [Sc 1, Sc 1])),
                  (''depth'', NdArray Float16 (Ax [Sc 1]))],
           3 / 2, False,
           GDict [(''success'', PyBool False), (''dist'', NdArray Float64 (Sc 1))]), 6) \<and>
   np_float32 (f64_mul (3 / 2) 2) = Finite 3 \<and>
   (\<exists>a' obs0 r0 d0 info0.
      process_action demo_wrapper (PyIntA 0) = Inr a' \<and>
      env_step demo_env a' 5 = Inr ((obs0, r0, d0, info0), 6) \<and>
      Finite (- 3) = np_float32 (f64_mul r0 (if True then - 2 else 2)) \<and>
      Finite (- 3) = (if True then fl_neg (np_float32 (f64_mul r0 2))
                      else np_float32 (f64_mul r0 2))) \<and>
   ExtendedEnv_init (reward_env huge) huge False = Inr (reward_wrapper huge huge) \<and>
   ExtendedEnv_step id (reward_wrapper huge huge) (PyIntA 0) 0 =
     Inr ((NdArray Float32 (Ax [Sc 0]), PosInf, False,
           GDict [(''TimeLimit.truncated'', PyBool False)]), 1) \<and>
   (\<exists>a' obs0 r0 d0 info0.
      process_action (reward_wrapper huge huge) (PyIntA 0) = Inr a' \<and>
      env_step (reward_env huge) a' 0 = Inr ((obs0, r0, d0, info0), 1) \<and>
      PosInf = np_float32 (f64_mul r0 (if False then - huge else huge)) \<and>
      PosInf = (if False then fl_neg (np_float32 (f64_mul r0 huge))
                else np_float32 (f64_mul r0 huge)))"
proof -
  have h1: "ExtendedEnv_init demo_env 2 True = Inr demo_wrapper"
    by (simp add: ExtendedEnv_init_def demo_wrapper_def demo_env_def)
  have h3: "env_step demo_env (PyIntA 0) 5 =
     Inr ((GDict [(''state'', NdArray Float64 (Ax [Sc 1, Sc 1])),
                  (''depth'', NdArray Float16 (Ax [Sc 1]))],
           3 / 2, False,
           GDict [(''success'', PyBool False), (''dist'', NdArray Float64 (Sc 1))]), 6)"
    by (simp add: demo_env_def)
  have h4: "np_float32 (f64_mul (3 / 2) 2) = Finite 3"
    by (simp add: float_defs)
  have g1: "ExtendedEnv_init (reward_env huge) huge False = Inr (reward_wrapper huge huge)"
    by (simp add: ExtendedEnv_init_def reward_wrapper_def reward_env_def huge_def)
  have g2: "ExtendedEnv_step id (reward_wrapper huge huge) (PyIntA 0) 0 =
     Inr ((NdArray Float32 (Ax [Sc 0]), PosInf, False,
           GDict [(''TimeLimit.truncated'', PyBool False)]), 1)"
    by (simp add: ExtendedEnv_step_def ExtendedEnv_forward_def process_action_def
        set_truncated_def reward_wrapper_def reward_env_def huge_def float_defs bitlen_huge)
  from step_reward_scaled[OF h1 demo_step] step_reward_scaled[OF g1 g2] h1 demo_step h3 h4 g1 g2
  show ?thesis
    by (intro conjI)
qed

text \<open>
  C6: in point-cloud mode, with an \<^verbatim>\<open>obs_frame\<close> other than \<^verbatim>\<open>base\<close>,
  \<^verbatim>\<open>world\<close> and \<^verbatim>\<open>ee\<close>, \<^verbatim>\<open>observation\<close> ends in \<^verbatim>\<open>exit(0)\<close> on every
  observation, and so does \<^verbatim>\<open>step\<close> once the wrapped environment has stepped: no
  observation is returned.
\<close>

theorem unknown_frame_exits:
  assumes "obs_mode (wrapped w) = ''pointcloud''"
    and "obs_frame w \<notin> {''base'', ''world'', ''ee''}"
  shows "observation D w obsv = Inl (SystemExit 0) \<and>
         (env_step (wrapped w) a s = Inr ((obsv, reward, done, info), s') \<longrightarrow>
            ManiSkill2_ObsWrapper_step D w a s = Inl (SystemExit 0))"
  using assms
  by (simp add: observation_def observation_pointcloud_def frame_to_origin_def
      ManiSkill2_ObsWrapper_step_def)

theorem unknown_frame_exits_witness:
  "obs_mode (wrapped camera_wrapper) = ''pointcloud'' \<and>
   obs_frame camera_wrapper \<notin> {''base'', ''world'', ''ee''} \<and>
   observation rigid_helpers camera_wrapper cloud_obs = Inl (SystemExit 0) \<and>
   env_step (wrapped camera_wrapper) (PyIntA 0) 0 = Inr ((cloud_obs, 1, True, ()), 1) \<and>
   ManiSkill2_ObsWrapper_step rigid_helpers camera_wrapper (PyIntA 0) 0 = Inl (SystemExit 0)"
proof -
  have h1: "obs_mode (wrapped camera_wrapper) = ''pointcloud''"
    by (simp add: camera_wrapper_def cloud_wrapper_def cloud_env_def)
  have h2: "obs_frame camera_wrapper \<notin> {''base'', ''world'', ''ee''}"
    by (simp add: camera_wrapper_def cloud_wrapper_def)
  have h3: "env_step (wrapped camera_wrapper) (PyIntA 0) 0 = Inr ((cloud_obs, 1, True, ()), 1)"
    by (simp add: camera_wrapper_def cloud_wrapper_def cloud_env_def)
  show ?thesis
    using h1 h2 h3
      unknown_frame_exits[OF h1 h2, of rigid_helpers cloud_obs "PyIntA 0" 0 1 True "()" 1]
    by simp
qed

text \<open>
  C7: in point-cloud mode, when the cloud carries an \<^verbatim>\<open>xyzw\<close> array and
  \<^verbatim>\<open>observation\<close> returns, what is handed to the rest of the branch (the scaling of
  the colours, the downsampling and the change of frame in \<open>pcd_process\<close>) is the masked
  cloud: \<^verbatim>\<open>xyz\<close> holds the first three components of exactly the rows whose last
  component is greater than 0.5, and \<^verbatim>\<open>rgb\<close> and \<^verbatim>\<open>robot_seg\<close> hold their entries
  at exactly those rows.
\<close>

theorem xyzw_mask_before_transform:
  assumes "obs_mode (wrapped w) = ''pointcloud''"
    and "getitem obsv ''pointcloud'' = Inr (Dict pc)"
    and "map_of pc ''xyzw'' = Some (Arr (matrix rows))"
    and "observation D w obsv = Inr r"
  shows "\<exists>to_origin pointcloud.
           frame_to_origin D (obs_frame w) obsv = Inr to_origin \<and>
           mask_pointcloud pc = Inr pointcloud \<and>
           pcd_process D w obsv to_origin (select_modes pointcloud) = Inr r \<and>
           map_of (select_modes pointcloud) ''xyz'' =
             Some (Arr (matrix (map butlast (filter (\<lambda>p. last p > 0.5) rows)))) \<and>
           (\<forall>k \<in> {''rgb'', ''robot_seg''}. \<forall>v. map_of pc k = Some v \<longrightarrow>
              (\<exists>fs. v = Arr (Ax fs) \<and> length fs = length rows \<and>
                 map_of (select_modes pointcloud) k =
                   Some (Arr (Ax (map fst (filter (\<lambda>(f, p). last p > 0.5) (zip fs rows)))))))"
proof -
  from observation_pointcloud_Inr[OF assms(1,4)] assms(2) obtain to_origin pointcloud where
    a: "frame_to_origin D (obs_frame w) obsv = Inr to_origin"
      "mask_pointcloud pc = Inr pointcloud"
      "pcd_process D w obsv to_origin (select_modes pointcloud) = Inr r"
    by auto
  note m = mask_pointcloud_xyzw[OF assms(3) a(2)]
  show ?thesis using a m(1) m(2)
    by (intro exI[of _ to_origin] exI[of _ pointcloud]) (auto simp: map_of_select_modes)
qed

theorem xyzw_mask_before_transform_witness:
  "obs_mode (wrapped plain_wrapper) = ''pointcloud'' \<and>
   getitem cloud_obs ''pointcloud'' = Inr (Dict cloud_pc) \<and>
   map_of cloud_pc ''xyzw'' = Some (Arr (matrix cloud_rows)) \<and>
   observation rigid_helpers plain_wrapper cloud_obs = Inr plain_result \<and>
   map butlast (filter (\<lambda>p. last p > 0.5) cloud_rows) = [[1, 0, 0], [3, 0, 0], [4, 1, 0]] \<and>
   (\<exists>to_origin pointcloud.
      frame_to_origin rigid_helpers (obs_frame plain_wrapper) cloud_obs = Inr to_origin \<and>
      mask_pointcloud cloud_pc = Inr pointcloud \<and>
      pcd_process rigid_helpers plain_wrapper cloud_obs to_origin (select_modes pointcloud)
        = Inr plain_result \<and>
      map_of (select_modes pointcloud) ''xyz'' =
        Some (Arr (matrix (map butlast (filter (\<lambda>p. last p > 0.5) cloud_rows)))) \<and>
      (\<forall>k \<in> {''rgb'', ''robot_seg''}. \<forall>v. map_of cloud_pc k = Some v \<longrightarrow>
         (\<exists>fs. v = Arr (Ax fs) \<and> length fs = length cloud_rows \<and>
            map_of (select_modes pointcloud) k =
              Some (Arr (Ax (map fst (filter (\<lambda>(f, p). last p > 0.5)
                                        (zip fs cloud_rows))))))))"
proof -
  have e: "map butlast (filter (\<lambda>p. last p > 0.5) cloud_rows) = [[1, 0, 0], [3, 0, 0], [4, 1, 0]]"
    by (simp add: cloud_rows_def)
  from xyzw_mask_before_transform[OF plain_mode cloud_pointcloud cloud_xyzw plain_run]
    plain_mode cloud_pointcloud cloud_xyzw plain_run e
  show ?thesis by (intro conjI)
qed

text \<open>
  C8: after a call of \<^verbatim>\<open>ExtendedEnv.step\<close> in which the wrapped environment gave a
  dictionary as info, the returned info is a dictionary with the key
  \<^verbatim>\<open>TimeLimit.truncated\<close>. If the wrapped environment did not set it, it is
  \<^verbatim>\<open>False\<close>. If it did, the statement that sets the key leaves info as it is, and
  the value comes back as it was: the float coercion that follows changes nothing in a
  value whose floating-point arrays, if it has any, are float32, as in a boolean.
\<close>

theorem step_info_truncated:
  assumes "ExtendedEnv_step f32 w a s = Inr ((obs, r, d, info), s')"
    and "process_action w a = Inr a'"
    and "env_step (env w) a' s = Inr ((obs0, r0, d0, GDict kvs), s0)"
  shows "\<exists>kvs'. info = GDict kvs' \<and> ''TimeLimit.truncated'' \<in> fst ` set kvs' \<and>
           (case map_of kvs ''TimeLimit.truncated'' of
              None \<Rightarrow> map_of kvs' ''TimeLimit.truncated'' = Some (PyBool False)
            | Some v \<Rightarrow>
                set_truncated (GDict kvs) = GDict kvs \<and>
                map_of kvs' ''TimeLimit.truncated'' = Some (f64_to_f32 f32 v) \<and>
                (all_float32 v \<longrightarrow> map_of kvs' ''TimeLimit.truncated'' = Some v))"
proof -
  from assms have i: "info = f64_to_f32 f32 (set_truncated (GDict kvs))"
    by (auto simp: ExtendedEnv_step_def forward_eq_Inr)
  have k: "''TimeLimit.truncated'' \<in> fst ` set kvs'"
    if "map_of kvs' ''TimeLimit.truncated'' = Some v" for kvs' :: "(string \<times> gval) list" and v
    using that by (metis domI dom_map_of_conv_image_fst)
  show ?thesis
  proof (cases "map_of kvs ''TimeLimit.truncated''")
    case None
    define kvs' where "kvs' = map (map_prod id (f64_to_f32 f32))
                  (AList.update ''TimeLimit.truncated'' (PyBool False) kvs)"
    from None have "''TimeLimit.truncated'' \<notin> set (map fst kvs)"
      by (simp add: map_of_eq_None_iff)
    then have e: "info = GDict kvs'"
      and m: "map_of kvs' ''TimeLimit.truncated'' = Some (PyBool False)"
      using i by (simp_all add: kvs'_def set_truncated_def map_of_map_prod update_conv')
    from e m k[OF m] None show ?thesis
      by (intro exI[of _ kvs']) simp
  next
    case (Some v)
    define kvs' where "kvs' = map (map_prod id (f64_to_f32 f32)) kvs"
    from Some have "''TimeLimit.truncated'' \<in> set (map fst kvs)"
      by (metis map_of_eq_None_iff option.distinct(1) set_map)
    then have e: "info = GDict kvs'"
      and u: "set_truncated (GDict kvs) = GDict kvs"
      and m: "map_of kvs' ''TimeLimit.truncated'' = Some (f64_to_f32 f32 v)"
      using i Some by (simp_all add: kvs'_def set_truncated_def map_of_map_prod)
    from e u m k[OF m] Some show ?thesis
      by (intro exI[of _ kvs']) (simp add: f64_to_f32_id)
  qed
qed

theorem step_info_truncated_witness:
  "ExtendedEnv_step id demo_wrapper (PyIntA 0) 5 =
     Inr ((GDict [(''state'', NdArray Float32 (Ax [Sc 1, Sc 1])),
                  (''depth'', NdArray Float32 (Ax [Sc 1]))],
           Finite (- 3), False,
           GDict [(''success'', PyBool False), (''dist'', NdArray Float32 (Sc 1)),
                  (''TimeLimit.truncated'', PyBool False)]), 6) \<and>
   process_action demo_wrapper (PyIntA 0) = Inr (PyIntA 0) \<and>
   env_step (env demo_wrapper) (PyIntA 0) 5 =
     Inr ((GDict [(''state'', NdArray Float64 (Ax [Sc 1, Sc 1])),
                  (''depth'', NdArray Float16 (Ax [Sc 1]))],
           3 / 2, False,
           GDict [(''success'', PyBool False), (''dist'', NdArray Float64 (Sc 1))]), 6) \<and>
   map_of [(''success'', PyBool False), (''dist'', NdArray Float32 (Sc 1)),
           (''TimeLimit.truncated'', PyBool False)] ''TimeLimit.truncated'' = Some (PyBool False) \<and>
   ExtendedEnv_step id (truncating_wrapper (PyBool True)) (PyIntA 0) 0 =
     Inr ((NdArray Float32 (Ax [Sc 0]), Finite 1, True,
           GDict [(''TimeLimit.truncated'', PyBool True)]), 1) \<and>
   process_action (truncating_wrapper (PyBool True)) (PyIntA 0) = Inr (PyIntA 0) \<and>
   env_step (env (truncating_wrapper (PyBool True))) (PyIntA 0) 0 =
     Inr ((NdArray Float32 (Ax [Sc 0]), 1, True,
           GDict [(''TimeLimit.truncated'', PyBool True)]), 1) \<and>
   all_float32 (PyBool True) \<and>
   map_of [(''TimeLimit.truncated'', PyBool True)] ''TimeLimit.truncated'' = Some (PyBool True)"
proof -
  have h2: "process_action demo_wrapper (PyIntA 0) = Inr (PyIntA 0)"
    by (simp add: process_action_def int_of_action_def demo_wrapper_def)
  have h3: "env_step (env demo_wrapper) (PyIntA 0) 5 =
     Inr ((GDict [(''state'', NdArray Float64 (Ax [Sc 1, Sc 1])),
                  (''depth'', NdArray Float16 (Ax [Sc 1]))],
           3 / 2, False,
           GDict [(''success'', PyBool False), (''dist'', NdArray Float64 (Sc 1))]), 6)"
    by (simp add: demo_wrapper_def demo_env_def)
  have g1: "ExtendedEnv_step id (truncating_wrapper (PyBool True)) (PyIntA 0) 0 =
     Inr ((NdArray Float32 (Ax [Sc 0]), Finite 1, True,
           GDict [(''TimeLimit.truncated'', PyBool True)]), 1)"
    by (simp add: ExtendedEnv_step_def ExtendedEnv_forward_def process_action_def
        set_truncated_def truncating_wrapper_def truncating_env_def float_defs)
  have g2: "process_action (truncating_wrapper (PyBool True)) (PyIntA 0) = Inr (PyIntA 0)"
    by (simp add: process_action_def truncating_wrapper_def)
  have g3: "env_step (env (truncating_wrapper (PyBool True))) (PyIntA 0) 0 =
     Inr ((NdArray Float32 (Ax [Sc 0]), 1, True,
           GDict [(''TimeLimit.truncated'', PyBool True)]), 1)"
    by (simp add: truncating_wrapper_def truncating_env_def)
  show ?thesis
    using demo_step h2 h3 g1 g2 g3 step_info_truncated[OF demo_step h2 h3]
      step_info_truncated[OF g1 g2 g3]
    by (simp add: all_float32_def)
qed

text \<open>
  C9: with \<^verbatim>\<open>ignore_dones\<close> set, the done flag that
  \<^verbatim>\<open>ManiSkill2_ObsWrapper.step\<close> returns is \<^verbatim>\<open>False\<close>, for every action and
  whatever the wrapped environment reported; and it does return, with that flag, whenever
  the wrapped environment steps and \<^verbatim>\<open>observation\<close> returns.
\<close>

theorem ignore_dones_step:
  assumes "ignore_dones w"
  shows "(ManiSkill2_ObsWrapper_step D w a s = Inr ((next_obs, reward, done, info), s') \<longrightarrow>
            done = False) \<and>
         (env_step (wrapped w) a s = Inr ((obsv, reward, done0, info), s') \<longrightarrow>
          observation D w obsv = Inr next_obs \<longrightarrow>
            ManiSkill2_ObsWrapper_step D w a s = Inr ((next_obs, reward, False, info), s'))"
  using assms by (auto simp: ManiSkill2_ObsWrapper_step_def bnd_eq_Inr)

theorem ignore_dones_step_witness:
  "ignore_dones state_wrapper \<and>
   env_step (wrapped state_wrapper) (PyIntA 0) 0 = Inr ((cloud_obs, 1, True, ()), 1) \<and>
   observation rigid_helpers state_wrapper cloud_obs = Inr cloud_obs \<and>
   ManiSkill2_ObsWrapper_step rigid_helpers state_wrapper (PyIntA 0) 0 =
     Inr ((cloud_obs, 1, False, ()), 1)"
proof -
  have h1: "ignore_dones state_wrapper"
    by (simp add: state_wrapper_def cloud_wrapper_def)
  have h2: "env_step (wrapped state_wrapper) (PyIntA 0) 0 = Inr ((cloud_obs, 1, True, ()), 1)"
    by (simp add: state_wrapper_def cloud_wrapper_def cloud_env_def)
  have h3: "observation rigid_helpers state_wrapper cloud_obs = Inr cloud_obs"
    by (simp add: observation_def state_wrapper_def cloud_wrapper_def cloud_env_def)
  show ?thesis
    using h1 h2 h3
      ignore_dones_step[OF h1, of rigid_helpers "PyIntA 0" 0 cloud_obs 1 False "()" 1
        cloud_obs True]
    by simp
qed

text \<open>
  C10: in the observation mode \<^verbatim>\<open>state\<close>, \<^verbatim>\<open>observation\<close> returns its argument as
  it is.
\<close>

theorem observation_state_identity:
  assumes "obs_mode (wrapped w) = ''state''"
  shows "observation D w obsv = Inr obsv"
  using assms by (simp add: observation_def)

theorem observation_state_identity_witness:
  "obs_mode (wrapped state_wrapper) = ''state'' \<and>
   observation rigid_helpers state_wrapper (Arr (vec [1, 2, 3])) = Inr (Arr (vec [1, 2, 3]))"
proof -
  have h: "obs_mode (wrapped state_wrapper) = ''state''"
    by (simp add: state_wrapper_def cloud_wrapper_def cloud_env_def)
  show ?thesis
    using h observation_state_identity[OF h, of rigid_helpers "Arr (vec [1, 2, 3])"]
    by simp
qed

end
